theory Spec2Isabelle
  imports Complex_Main "HOL-Library.Word"
begin

section \<open>ZombieSurSim: entity physics, combat, waves and persistence\<close>

text \<open>
  A shallow embedding of \<^verbatim>\<open>tgame4.cpp\<close> and \<^verbatim>\<open>Weather.cpp\<close>.

  Conventions of the embedding.
  \<^item> C++ \<^verbatim>\<open>float\<close> and \<^verbatim>\<open>double\<close> values of the simulation are modelled as
    \<^typ>\<open>real\<close>: rounding is abstracted away, every comparison and every branch is
    kept. The persistence codec only copies object representations, so there a
    \<^verbatim>\<open>float\<close> is its 32-bit pattern and a \<^verbatim>\<open>double\<close> its 64-bit pattern.
  \<^item> C++ \<^verbatim>\<open>int\<close> values of the simulation are modelled as \<^typ>\<open>int\<close> (signed overflow
    is undefined behaviour and no operation of a run approaches the limits); in the save
    file an \<^verbatim>\<open>int\<close> is four bytes, little endian, two's complement.
  \<^item> A class is a record, a derived class a record extension, a method a function
    from the object to the updated object.
  \<^item> Reads of the clock (\<^verbatim>\<open>SDL_GetTicks() / 1000.0\<close>), of the keyboard and of the
    random generators are inputs of the step functions.
  \<^item> Textures, fonts, animation frames and rendering are left out: no branch of the
    simulation reads them once \<^verbatim>\<open>RunMainGame\<close> has passed its texture checks.
\<close>

subsection \<open>Constants\<close>

definition SCREEN_WIDTH :: int where "SCREEN_WIDTH = 800"
definition SCREEN_HEIGHT :: int where "SCREEN_HEIGHT = 600"
definition TILE_SIZE :: int where "TILE_SIZE = 32"

definition GRAVITY :: real where "GRAVITY = 1 / 2"
definition JUMP_FORCE :: real where "JUMP_FORCE = - 13"
definition PLAYER_ACCEL :: real where "PLAYER_ACCEL = 8 / 10"
definition FRICTION :: real where "FRICTION = 7 / 10"
definition MAX_SPEED :: real where "MAX_SPEED = 5"

subsection \<open>Platforms and terrain\<close>

record Platform =
  plat_x :: int
  plat_y :: int
  plat_width :: int
  plat_height :: int

text \<open>\<^verbatim>\<open>SDL_Rect\<close>: integer rectangle.\<close>

record SDL_Rect =
  rx :: int
  ry :: int
  rw :: int
  rh :: int

text \<open>The \<^verbatim>\<open>platformRect\<close> every loop of the source builds from a platform.\<close>

definition platformRect :: "Platform \<Rightarrow> SDL_Rect" where
  "platformRect p =
     \<lparr>rx = plat_x p * TILE_SIZE, ry = plat_y p * TILE_SIZE,
      rw = plat_width p * TILE_SIZE, rh = plat_height p * TILE_SIZE\<rparr>"

type_synonym Terrain = "Platform list"

text \<open>\<^verbatim>\<open>Terrain::getSolid\<close>: is the point inside some platform?\<close>

fun getSolid :: "Terrain \<Rightarrow> int \<Rightarrow> int \<Rightarrow> bool" where
  "getSolid [] x y = False"
| "getSolid (p # ps) x y =
     (if x \<ge> rx (platformRect p) \<and> x < rx (platformRect p) + rw (platformRect p) \<and>
         y \<ge> ry (platformRect p) \<and> y < ry (platformRect p) + rh (platformRect p)
      then True else getSolid ps x y)"

text \<open>
  \<^verbatim>\<open>SDL_HasIntersection\<close> of the SDL library: false when either rectangle is empty,
  otherwise true iff the rectangles overlap on both axes with positive extent.
\<close>

definition SDL_HasIntersection :: "SDL_Rect \<Rightarrow> SDL_Rect \<Rightarrow> bool" where
  "SDL_HasIntersection A B =
     (if rw A \<le> 0 \<or> rh A \<le> 0 \<or> rw B \<le> 0 \<or> rh B \<le> 0 then False
      else if min (rx A + rw A) (rx B + rw B) \<le> max (rx A) (rx B) then False
      else if min (ry A + rh A) (ry B + rh B) \<le> max (ry A) (ry B) then False
      else True)"

subsection \<open>PhysicsEntity\<close>

text \<open>The conversion \<^verbatim>\<open>(int)\<close> of a floating-point value truncates toward zero.\<close>

definition to_int :: "real \<Rightarrow> int" where
  "to_int x = (if x \<ge> 0 then \<lfloor>x\<rfloor> else \<lceil>x\<rceil>)"

record PhysicsEntity =
  pos_x :: real
  pos_y :: real
  vel_x :: real
  vel_y :: real
  col_x :: real
  col_y :: real
  w :: int
  h :: int
  onGround :: bool
  gravity :: bool
  friction :: bool
  health :: int

text \<open>The constructor: collision box equal to the size, standing still, health 100.\<close>

definition new_PhysicsEntity :: "real \<Rightarrow> real \<Rightarrow> int \<Rightarrow> int \<Rightarrow> PhysicsEntity" where
  "new_PhysicsEntity x y w0 h0 =
     \<lparr>pos_x = x, pos_y = y, vel_x = 0, vel_y = 0, col_x = real_of_int w0,
      col_y = real_of_int h0, w = w0, h = h0, onGround = False, gravity = True,
      friction = True, health = 100\<rparr>"

definition accelerate :: "real \<Rightarrow> real \<Rightarrow> 'a PhysicsEntity_scheme \<Rightarrow> 'a PhysicsEntity_scheme" where
  "accelerate x y e =
     (let e1 = e\<lparr>vel_x := vel_x e + x\<rparr>;
          e2 = e1\<lparr>vel_y := vel_y e1 + y\<rparr>;
          e3 = (if vel_x e2 > MAX_SPEED then e2\<lparr>vel_x := MAX_SPEED\<rparr> else e2)
      in if vel_x e3 < - MAX_SPEED then e3\<lparr>vel_x := - MAX_SPEED\<rparr> else e3)"

definition grounded :: "Terrain \<Rightarrow> 'a PhysicsEntity_scheme \<Rightarrow> bool" where
  "grounded t e =
     (getSolid t (to_int (pos_x e + col_x e - 1)) (to_int (pos_y e + col_y e)) \<or>
      getSolid t (to_int (pos_x e + 1)) (to_int (pos_y e + col_y e)))"

definition ceilingCol :: "Terrain \<Rightarrow> 'a PhysicsEntity_scheme \<Rightarrow> bool" where
  "ceilingCol t e =
     (getSolid t (to_int (pos_x e + col_x e - 1)) (to_int (pos_y e)) \<or>
      getSolid t (to_int (pos_x e + 1)) (to_int (pos_y e)))"

definition leftCol :: "Terrain \<Rightarrow> 'a PhysicsEntity_scheme \<Rightarrow> bool" where
  "leftCol t e =
     (if vel_x e \<ge> 0 then False
      else getSolid t (to_int (pos_x e)) (to_int (pos_y e + col_y e - 1)) \<or>
           getSolid t (to_int (pos_x e)) (to_int (pos_y e)))"

definition rightCol :: "Terrain \<Rightarrow> 'a PhysicsEntity_scheme \<Rightarrow> bool" where
  "rightCol t e =
     (if vel_x e \<le> 0 then False
      else getSolid t (to_int (pos_x e + col_x e)) (to_int (pos_y e + col_y e - 1)) \<or>
           getSolid t (to_int (pos_x e + col_x e)) (to_int (pos_y e)))"

definition getRect :: "'a PhysicsEntity_scheme \<Rightarrow> SDL_Rect" where
  "getRect e = \<lparr>rx = to_int (pos_x e), ry = to_int (pos_y e), rw = w e, rh = h e\<rparr>"

text \<open>
  The four collision blocks. The source repeats them verbatim in
  \<^verbatim>\<open>PhysicsEntity::update\<close>, \<^verbatim>\<open>Zombie::update\<close> and \<^verbatim>\<open>Food::update\<close>; each scans the
  platforms in order and snaps to the first one that matches (\<^verbatim>\<open>break\<close>).
\<close>

definition groundBlock :: "Terrain \<Rightarrow> 'a PhysicsEntity_scheme \<Rightarrow> 'a PhysicsEntity_scheme" where
  "groundBlock t e =
     (if grounded t e \<and> vel_y e \<ge> 0 then
        (let e1 = e\<lparr>vel_y := 0, onGround := True\<rparr> in
         case find (\<lambda>p. pos_x e1 + real_of_int (w e1) > real_of_int (rx (platformRect p)) \<and>
                         pos_x e1 < real_of_int (rx (platformRect p) + rw (platformRect p)) \<and>
                         pos_y e1 + real_of_int (h e1) \<ge> real_of_int (ry (platformRect p)) \<and>
                         pos_y e1 + real_of_int (h e1) \<le> real_of_int (ry (platformRect p) + 10)) t of
           Some p \<Rightarrow> e1\<lparr>pos_y := real_of_int (ry (platformRect p) - h e1)\<rparr>
         | None \<Rightarrow> e1)
      else e)"

definition ceilingBlock :: "Terrain \<Rightarrow> 'a PhysicsEntity_scheme \<Rightarrow> 'a PhysicsEntity_scheme" where
  "ceilingBlock t e =
     (if ceilingCol t e \<and> vel_y e < 0 then
        (let e1 = e\<lparr>vel_y := 0\<rparr> in
         case find (\<lambda>p. pos_x e1 + real_of_int (w e1) > real_of_int (rx (platformRect p)) \<and>
                         pos_x e1 < real_of_int (rx (platformRect p) + rw (platformRect p)) \<and>
                         pos_y e1 \<le> real_of_int (ry (platformRect p) + rh (platformRect p)) \<and>
                         pos_y e1 \<ge> real_of_int (ry (platformRect p))) t of
           Some p \<Rightarrow> e1\<lparr>pos_y := real_of_int (ry (platformRect p) + rh (platformRect p))\<rparr>
         | None \<Rightarrow> e1)
      else e)"

definition leftBlock :: "Terrain \<Rightarrow> 'a PhysicsEntity_scheme \<Rightarrow> 'a PhysicsEntity_scheme" where
  "leftBlock t e =
     (if leftCol t e \<and> vel_x e < 0 \<and> \<not> ceilingCol t e then
        (let e1 = e\<lparr>vel_x := 0\<rparr> in
         case find (\<lambda>p. pos_y e1 + real_of_int (h e1) > real_of_int (ry (platformRect p)) \<and>
                         pos_y e1 < real_of_int (ry (platformRect p) + rh (platformRect p)) \<and>
                         pos_x e1 \<le> real_of_int (rx (platformRect p) + rw (platformRect p)) \<and>
                         pos_x e1 \<ge> real_of_int (rx (platformRect p))) t of
           Some p \<Rightarrow> e1\<lparr>pos_x := real_of_int (rx (platformRect p) + rw (platformRect p))\<rparr>
         | None \<Rightarrow> e1)
      else e)"

definition rightBlock :: "Terrain \<Rightarrow> 'a PhysicsEntity_scheme \<Rightarrow> 'a PhysicsEntity_scheme" where
  "rightBlock t e =
     (if rightCol t e \<and> vel_x e > 0 \<and> \<not> ceilingCol t e then
        (let e1 = e\<lparr>vel_x := 0\<rparr> in
         case find (\<lambda>p. pos_y e1 + real_of_int (h e1) > real_of_int (ry (platformRect p)) \<and>
                         pos_y e1 < real_of_int (ry (platformRect p) + rh (platformRect p)) \<and>
                         pos_x e1 + real_of_int (w e1) \<ge> real_of_int (rx (platformRect p)) \<and>
                         pos_x e1 + real_of_int (w e1) \<le> real_of_int (rx (platformRect p) + rw (platformRect p))) t of
           Some p \<Rightarrow> e1\<lparr>pos_x := real_of_int (rx (platformRect p) - w e1)\<rparr>
         | None \<Rightarrow> e1)
      else e)"

definition resolveCollisions :: "Terrain \<Rightarrow> 'a PhysicsEntity_scheme \<Rightarrow> 'a PhysicsEntity_scheme" where
  "resolveCollisions t e =
     rightBlock t (leftBlock t (ceilingBlock t (groundBlock t (e\<lparr>onGround := False\<rparr>))))"

text \<open>
  The playfield clamp that ends \<^verbatim>\<open>PhysicsEntity::update\<close>: an \<^verbatim>\<open>else if\<close> chain that
  stores the clamped coordinate in the velocity as well.
\<close>

definition clampToScreen :: "'a PhysicsEntity_scheme \<Rightarrow> 'a PhysicsEntity_scheme" where
  "clampToScreen e =
     (if pos_x e \<le> 10 then e\<lparr>pos_x := 10, vel_x := 10\<rparr>
      else if pos_x e > real_of_int (SCREEN_WIDTH - w e - 30)
        then e\<lparr>pos_x := real_of_int (SCREEN_WIDTH - w e - 60),
               vel_x := real_of_int (SCREEN_WIDTH - w e - 60)\<rparr>
      else if pos_y e \<le> 0 then e\<lparr>pos_y := 0, vel_y := 0\<rparr>
      else if pos_y e \<ge> real_of_int (SCREEN_HEIGHT - h e - 50)
        then e\<lparr>pos_y := real_of_int (SCREEN_HEIGHT - h e - 60),
               vel_y := real_of_int (SCREEN_HEIGHT - h e - 60)\<rparr>
      else e)"

text \<open>
  \<^verbatim>\<open>PhysicsEntity::update\<close>: gravity, friction, Euler step, the four collision
  blocks, the playfield clamp. (The animation frame counter that follows is
  rendering state.)
\<close>

definition integrate :: "bool \<Rightarrow> 'a PhysicsEntity_scheme \<Rightarrow> 'a PhysicsEntity_scheme" where
  "integrate hasInput e =
     (let e1 = (if gravity e then e\<lparr>vel_y := vel_y e + GRAVITY\<rparr> else e);
          e2 = (if onGround e1 \<and> friction e1 \<and> \<not> hasInput
                then e1\<lparr>vel_x := vel_x e1 * FRICTION\<rparr> else e1)
      in e2\<lparr>pos_x := pos_x e2 + vel_x e2, pos_y := pos_y e2 + vel_y e2\<rparr>)"

definition update :: "Terrain \<Rightarrow> bool \<Rightarrow> 'a PhysicsEntity_scheme \<Rightarrow> 'a PhysicsEntity_scheme" where
  "update t hasInput e = clampToScreen (resolveCollisions t (integrate hasInput e))"

subsection \<open>Zombie and Food\<close>

datatype ZombieType = ATTACK | TANK

record Zombie = PhysicsEntity +
  ztype :: ZombieType
  speed :: real
  damage :: int
  lastDamageTime :: real

text \<open>
  The \<^verbatim>\<open>Zombie\<close> constructor: the base constructor, then speed, damage and health
  by type.
\<close>

definition new_Zombie :: "real \<Rightarrow> real \<Rightarrow> int \<Rightarrow> int \<Rightarrow> ZombieType \<Rightarrow> Zombie" where
  "new_Zombie x y w0 h0 t =
     PhysicsEntity.extend
       ((new_PhysicsEntity x y w0 h0)\<lparr>health := (if t = ATTACK then 50 else 100)\<rparr>)
       (Zombie.fields t (if t = ATTACK then 2 else 1 / 2) (if t = ATTACK then 5 else 10) 0)"

text \<open>The playfield clamp of \<^verbatim>\<open>Zombie::update\<close> (its last branch differs from the base one).\<close>

definition clampZombie :: "'a Zombie_scheme \<Rightarrow> 'a Zombie_scheme" where
  "clampZombie e =
     (if pos_x e \<le> 10 then e\<lparr>pos_x := 10, vel_x := 10\<rparr>
      else if pos_x e > real_of_int (SCREEN_WIDTH - w e - 30)
        then e\<lparr>pos_x := real_of_int (SCREEN_WIDTH - w e - 60),
               vel_x := real_of_int (SCREEN_WIDTH - w e - 60)\<rparr>
      else if pos_y e \<le> 0 then e\<lparr>pos_y := 0, vel_y := 0\<rparr>
      else if pos_y e \<ge> real_of_int (SCREEN_HEIGHT - h e - 50)
        then e\<lparr>pos_y := real_of_int (SCREEN_HEIGHT - h e - 50),
               vel_y := real_of_int (SCREEN_HEIGHT - h e - 50)\<rparr>
      else e)"

text \<open>\<^verbatim>\<open>Zombie::update\<close>: steer toward the player, then the same physics.\<close>

definition Zombie_update :: "Terrain \<Rightarrow> PhysicsEntity \<Rightarrow> 'a Zombie_scheme \<Rightarrow> 'a Zombie_scheme" where
  "Zombie_update t player0 z =
     (let dx = pos_x player0 - pos_x z;
          z1 = (if \<bar>dx\<bar> > 5 then z\<lparr>vel_x := (if dx > 0 then speed z else - speed z)\<rparr>
                else z\<lparr>vel_x := 0\<rparr>);
          z2 = (if gravity z1 then z1\<lparr>vel_y := vel_y z1 + GRAVITY\<rparr> else z1);
          z3 = (if onGround z2 \<and> friction z2 \<and> vel_x z2 = 0
                then z2\<lparr>vel_x := vel_x z2 * FRICTION\<rparr> else z2);
          z4 = z3\<lparr>pos_x := pos_x z3 + vel_x z3, pos_y := pos_y z3 + vel_y z3\<rparr>
      in clampZombie (resolveCollisions t z4))"

record Food = Zombie +
  spawnTime :: real

definition HEALTH_RESTORE :: int where "HEALTH_RESTORE = 20"
definition LIFETIME :: real where "LIFETIME = 10"

text \<open>
  The \<^verbatim>\<open>Food\<close> constructor: a \<^verbatim>\<open>Zombie\<close> of type \<^verbatim>\<open>ATTACK\<close> with health 0 and no
  friction; \<open>clock\<close> is the clock read that initialises \<^verbatim>\<open>spawnTime\<close>.
\<close>

definition new_Food :: "real \<Rightarrow> real \<Rightarrow> int \<Rightarrow> int \<Rightarrow> real \<Rightarrow> Food" where
  "new_Food x y w0 h0 clock =
     Zombie.extend ((new_Zombie x y w0 h0 ATTACK)\<lparr>health := 0, friction := False\<rparr>)
       (Food.fields clock)"

text \<open>The playfield clamp of \<^verbatim>\<open>Food::update\<close>: four independent tests.\<close>

definition clampFood :: "Food \<Rightarrow> Food" where
  "clampFood e =
     (let e1 = (if pos_x e < 0 then e\<lparr>pos_x := 0, vel_x := 0\<rparr> else e);
          e2 = (if pos_x e1 > real_of_int (SCREEN_WIDTH - w e1)
                then e1\<lparr>pos_x := real_of_int (SCREEN_WIDTH - w e1), vel_x := 0\<rparr> else e1);
          e3 = (if pos_y e2 < 0 then e2\<lparr>pos_y := 0, vel_y := 0\<rparr> else e2)
      in if pos_y e3 > real_of_int SCREEN_HEIGHT
         then e3\<lparr>pos_y := real_of_int (SCREEN_HEIGHT - h e3), vel_y := 0\<rparr> else e3)"

definition Food_update :: "Terrain \<Rightarrow> Food \<Rightarrow> Food" where
  "Food_update t f =
     (let f2 = (if gravity f then f\<lparr>vel_y := vel_y f + GRAVITY\<rparr> else f);
          f3 = (if onGround f2 \<and> friction f2 \<and> vel_x f2 = 0
                then f2\<lparr>vel_x := vel_x f2 * FRICTION\<rparr> else f2);
          f4 = f3\<lparr>pos_x := pos_x f3 + vel_x f3, pos_y := pos_y f3 + vel_y f3\<rparr>
      in clampFood (resolveCollisions t f4))"

subsection \<open>WeatherSystem\<close>

datatype Weather = DAY | NIGHT

record WeatherSystem =
  weatherStart :: real
  currentWeather :: Weather

definition WEATHER_CHANGE_INTERVAL :: real where "WEATHER_CHANGE_INTERVAL = 30"

text \<open>\<^verbatim>\<open>WeatherSystem::setType\<close>; \<open>clock\<close> is the clock read that resets the timer.\<close>

definition setType :: "int \<Rightarrow> real \<Rightarrow> WeatherSystem \<Rightarrow> WeatherSystem" where
  "setType ty clock ws =
     (if ty = 0 \<or> ty = 1
      then ws\<lparr>currentWeather := (if ty = 0 then DAY else NIGHT), weatherStart := clock\<rparr>
      else ws)"

definition getType :: "WeatherSystem \<Rightarrow> int" where
  "getType ws = (case currentWeather ws of DAY \<Rightarrow> 0 | NIGHT \<Rightarrow> 1)"

definition Weather_update :: "real \<Rightarrow> WeatherSystem \<Rightarrow> WeatherSystem" where
  "Weather_update currentTime ws =
     (if currentTime - weatherStart ws \<ge> WEATHER_CHANGE_INTERVAL
      then ws\<lparr>currentWeather := (if currentWeather ws = DAY then NIGHT else DAY),
              weatherStart := currentTime\<rparr>
      else ws)"

subsection \<open>GameState and the persistence codec\<close>

text \<open>
  \<^verbatim>\<open>struct GameState\<close>. The record is polymorphic in the representation of
  \<^verbatim>\<open>float\<close> (\<open>'f\<close>) and \<^verbatim>\<open>double\<close> (\<open>'d\<close>): the codec works on object
  representations (\<open>32 word\<close>, \<open>64 word\<close>), the run on the values (\<^typ>\<open>real\<close>).
\<close>

record ('f, 'd) GameState =
  playerPos :: "'f \<times> 'f"
  playerVel :: "'f \<times> 'f"
  playerHealth :: int
  score :: int
  startTime :: 'd
  isValid :: bool
  zombies :: "('f \<times> 'f \<times> ZombieType) list"
  wave :: int
  zombiesToSpawn :: int
  waveZombiesRemaining :: int
  weatherType :: int

text \<open>
  The default constructor initialises \<^verbatim>\<open>isValid\<close>, \<^verbatim>\<open>wave\<close>, \<^verbatim>\<open>zombiesToSpawn\<close>,
  \<^verbatim>\<open>waveZombiesRemaining\<close> and \<^verbatim>\<open>weatherType\<close>; the two vectors and the list
  initialise themselves; \<^verbatim>\<open>playerHealth\<close>, \<^verbatim>\<open>score\<close> and \<^verbatim>\<open>startTime\<close> are left
  uninitialised, so their values are parameters.
\<close>

definition new_GameState :: "int \<Rightarrow> int \<Rightarrow> 'd \<Rightarrow> ('f::zero, 'd) GameState" where
  "new_GameState uHealth uScore uStart =
     \<lparr>playerPos = (0, 0), playerVel = (0, 0), playerHealth = uHealth, score = uScore,
      startTime = uStart, isValid = False, zombies = [], wave = 1, zombiesToSpawn = 15,
      waveZombiesRemaining = 0, weatherType = 0\<rparr>"

type_synonym byte = "8 word"

text \<open>Little-endian object representations: \<open>n\<close> bytes of a number, and back.\<close>

fun le_bytes :: "nat \<Rightarrow> nat \<Rightarrow> byte list" where
  "le_bytes 0 v = []"
| "le_bytes (Suc n) v = of_nat (v mod 256) # le_bytes n (v div 256)"

fun le_value :: "byte list \<Rightarrow> nat" where
  "le_value [] = 0"
| "le_value (b # bs) = unat b + 256 * le_value bs"

definition float_bytes :: "32 word \<Rightarrow> byte list" where
  "float_bytes x = le_bytes 4 (unat x)"

definition bytes_float :: "byte list \<Rightarrow> 32 word" where
  "bytes_float bs = of_nat (le_value bs)"

definition double_bytes :: "64 word \<Rightarrow> byte list" where
  "double_bytes x = le_bytes 8 (unat x)"

definition bytes_double :: "byte list \<Rightarrow> 64 word" where
  "bytes_double bs = of_nat (le_value bs)"

definition int_bytes :: "int \<Rightarrow> byte list" where
  "int_bytes i = le_bytes 4 (unat (word_of_int i :: 32 word))"

definition bytes_int :: "byte list \<Rightarrow> int" where
  "bytes_int bs = sint (of_nat (le_value bs) :: 32 word)"

definition size_t_bytes :: "nat \<Rightarrow> byte list" where
  "size_t_bytes n = le_bytes 8 (unat (of_nat n :: 64 word))"

definition bytes_size_t :: "byte list \<Rightarrow> nat" where
  "bytes_size_t bs = unat (of_nat (le_value bs) :: 64 word)"

definition bool_bytes :: "bool \<Rightarrow> byte list" where
  "bool_bytes b = [if b then 1 else 0]"

definition bytes_bool :: "byte list \<Rightarrow> bool" where
  "bytes_bool bs = (le_value bs \<noteq> 0)"

definition Vector2D_bytes :: "32 word \<times> 32 word \<Rightarrow> byte list" where
  "Vector2D_bytes v = float_bytes (fst v) @ float_bytes (snd v)"

definition bytes_Vector2D :: "byte list \<Rightarrow> 32 word \<times> 32 word" where
  "bytes_Vector2D bs = (bytes_float (take 4 bs), bytes_float (drop 4 bs))"

text \<open>
  The enumeration in the file is an \<^verbatim>\<open>int\<close>. Reading back, \<^verbatim>\<open>static_cast\<close> gives
  \<^verbatim>\<open>ATTACK\<close> for 0 and \<^verbatim>\<open>TANK\<close> for 1; any other number is outside the enumeration,
  and as every use of a type only compares it with \<^verbatim>\<open>ATTACK\<close> it is read as \<^verbatim>\<open>TANK\<close>.
\<close>

definition int_of_ZombieType :: "ZombieType \<Rightarrow> int" where
  "int_of_ZombieType t = (case t of ATTACK \<Rightarrow> 0 | TANK \<Rightarrow> 1)"

definition ZombieType_of_int :: "int \<Rightarrow> ZombieType" where
  "ZombieType_of_int i = (if i = 0 then ATTACK else TANK)"

text \<open>What \<^verbatim>\<open>saveGameState\<close> writes on an open stream, field by field.\<close>

definition zombie_bytes :: "32 word \<times> 32 word \<times> ZombieType \<Rightarrow> byte list" where
  "zombie_bytes z =
     (case z of (x, y, t) \<Rightarrow> float_bytes x @ float_bytes y @ int_bytes (int_of_ZombieType t))"

definition serialize :: "(32 word, 64 word) GameState \<Rightarrow> byte list" where
  "serialize state =
     Vector2D_bytes (playerPos state) @ Vector2D_bytes (playerVel state) @
     int_bytes (playerHealth state) @ int_bytes (score state) @
     double_bytes (startTime state) @ bool_bytes (isValid state) @
     size_t_bytes (length (zombies state)) @ concat (map zombie_bytes (zombies state)) @
     int_bytes (wave state) @ int_bytes (zombiesToSpawn state) @
     int_bytes (waveZombiesRemaining state) @ int_bytes (weatherType state)"

text \<open>
  \<^verbatim>\<open>saveGameState\<close>. A file is \<open>None\<close> when it cannot be opened for reading and
  \<open>Some\<close> of its bytes otherwise; \<open>opened\<close> says whether the output stream opened.
  Opening truncates the file; when the stream does not open, nothing is written.
\<close>

definition saveGameState :: "(32 word, 64 word) GameState \<Rightarrow> bool \<Rightarrow> byte list option \<Rightarrow> byte list option" where
  "saveGameState state opened file = (if opened then Some (serialize state) else file)"

text \<open>
  An input stream: the bytes not yet read and the state of the stream.
  \<^verbatim>\<open>read(p, n)\<close> on a good stream stores the next \<open>n\<close> bytes in the object; when fewer
  are left it stores those, leaves the rest of the object as it was and the stream
  fails; on a failed stream it stores nothing. \<open>old\<close> is the object representation
  before the read.
\<close>

record istream =
  content :: "byte list"
  good :: bool

definition istream_read :: "nat \<Rightarrow> byte list \<Rightarrow> istream \<Rightarrow> byte list \<times> istream" where
  "istream_read n old st =
     (if good st then
        (let k = min n (length (content st))
         in (take k (content st) @ drop k old,
             \<lparr>content = drop k (content st), good = (k = n)\<rparr>))
      else (old, st))"

definition read_Vector2D :: "32 word \<times> 32 word \<Rightarrow> istream \<Rightarrow> (32 word \<times> 32 word) \<times> istream" where
  "read_Vector2D old st =
     (case istream_read 8 (Vector2D_bytes old) st of (bs, st1) \<Rightarrow> (bytes_Vector2D bs, st1))"

definition read_float :: "32 word \<Rightarrow> istream \<Rightarrow> 32 word \<times> istream" where
  "read_float old st =
     (case istream_read 4 (float_bytes old) st of (bs, st1) \<Rightarrow> (bytes_float bs, st1))"

definition read_double :: "64 word \<Rightarrow> istream \<Rightarrow> 64 word \<times> istream" where
  "read_double old st =
     (case istream_read 8 (double_bytes old) st of (bs, st1) \<Rightarrow> (bytes_double bs, st1))"

definition read_int :: "int \<Rightarrow> istream \<Rightarrow> int \<times> istream" where
  "read_int old st =
     (case istream_read 4 (int_bytes old) st of (bs, st1) \<Rightarrow> (bytes_int bs, st1))"

definition read_bool :: "bool \<Rightarrow> istream \<Rightarrow> bool \<times> istream" where
  "read_bool old st =
     (case istream_read 1 (bool_bytes old) st of (bs, st1) \<Rightarrow> (bytes_bool bs, st1))"

definition read_size_t :: "nat \<Rightarrow> istream \<Rightarrow> nat \<times> istream" where
  "read_size_t old st =
     (case istream_read 8 (size_t_bytes old) st of (bs, st1) \<Rightarrow> (bytes_size_t bs, st1))"

text \<open>
  What \<^verbatim>\<open>loadGameState\<close> finds in memory it never initialised, and the largest
  length \<^verbatim>\<open>resize\<close> can allocate (never more than the vector's \<^verbatim>\<open>max_size\<close>).
  \<open>uX\<close>, \<open>uY\<close> and \<open>uType\<close> are the locals of the loop body, by iteration.
\<close>

record Env =
  uHealth :: int
  uScore :: int
  uStartTime :: "64 word"
  uZombieCount :: nat
  uX :: "nat \<Rightarrow> 32 word"
  uY :: "nat \<Rightarrow> 32 word"
  uType :: "nat \<Rightarrow> int"
  allocLimit :: nat

text \<open>The loop that reads \<open>n\<close> zombies, starting with iteration \<open>i\<close>.\<close>

fun read_zombies :: "Env \<Rightarrow> nat \<Rightarrow> nat \<Rightarrow> istream \<Rightarrow> (32 word \<times> 32 word \<times> ZombieType) list \<times> istream" where
  "read_zombies env 0 i st = ([], st)"
| "read_zombies env (Suc n) i st =
     (case read_float (uX env i) st of (x, st1) \<Rightarrow>
      case read_float (uY env i) st1 of (y, st2) \<Rightarrow>
      case read_int (uType env i) st2 of (ty, st3) \<Rightarrow>
      case read_zombies env n (Suc i) st3 of (zs, st4) \<Rightarrow>
        ((x, y, ZombieType_of_int ty) # zs, st4))"

text \<open>
  \<^verbatim>\<open>loadGameState\<close>. \<^verbatim>\<open>resize\<close> throws when the count read exceeds what can be
  allocated; nothing catches the exception, so the program ends there.
\<close>

datatype LoadError = AllocationFailure

definition loadGameState :: "Env \<Rightarrow> byte list option \<Rightarrow> LoadError + (32 word, 64 word) GameState" where
  "loadGameState env file =
     (let state = new_GameState (uHealth env) (uScore env) (uStartTime env) in
      case file of
        None \<Rightarrow> Inr state
      | Some bytes \<Rightarrow>
         (case read_Vector2D (playerPos state) \<lparr>content = bytes, good = True\<rparr> of (pp, st1) \<Rightarrow>
          case read_Vector2D (playerVel state) st1 of (pv, st2) \<Rightarrow>
          case read_int (playerHealth state) st2 of (ph, st3) \<Rightarrow>
          case read_int (score state) st3 of (sc, st4) \<Rightarrow>
          case read_double (startTime state) st4 of (stt, st5) \<Rightarrow>
          case read_bool (isValid state) st5 of (iv, st6) \<Rightarrow>
          case read_size_t (uZombieCount env) st6 of (zombieCount, st7) \<Rightarrow>
            if zombieCount > allocLimit env then Inl AllocationFailure
            else
              (case read_zombies env zombieCount 0 st7 of (zs, st8) \<Rightarrow>
               case read_int (wave state) st8 of (wv, st9) \<Rightarrow>
               case read_int (zombiesToSpawn state) st9 of (zts, st10) \<Rightarrow>
               case read_int (waveZombiesRemaining state) st10 of (wzr, st11) \<Rightarrow>
               case read_int (weatherType state) st11 of (wt, st12) \<Rightarrow>
                 Inr \<lparr>playerPos = pp, playerVel = pv, playerHealth = ph, score = sc,
                      startTime = stt, isValid = True, zombies = zs, wave = wv,
                      zombiesToSpawn = zts, waveZombiesRemaining = wzr,
                      weatherType = wt\<rparr>)))"

subsection \<open>The run: the locals of \<^verbatim>\<open>RunMainGame\<close>\<close>

datatype GameScreenState = PLAYING | PAUSED | GAME_OVER | VICTORY

record Run =
  player :: PhysicsEntity
  score :: int
  startTime :: real
  zombies :: "Zombie list"
  foods :: "Food list"
  attacking :: bool
  lastAttackTime :: real
  wave :: int
  zombiesToSpawn :: int
  waveZombiesRemaining :: int
  weather :: WeatherSystem
  highScore :: int
  gameState :: GameScreenState
  running :: bool
  jumping :: bool

definition ATTACK_COOLDOWN :: real where "ATTACK_COOLDOWN = 1 / 2"
definition MELEE_DAMAGE :: int where "MELEE_DAMAGE = 25"
definition MELEE_RANGE :: int where "MELEE_RANGE = 100"
definition MAX_ZOMBIES_ONSCREEN :: int where "MAX_ZOMBIES_ONSCREEN = 5"
definition ZOMBIES_PER_WAVE :: "int list" where "ZOMBIES_PER_WAVE = [15, 20, 25, 30, 35]"
definition TOTAL_WAVES :: int where "TOTAL_WAVES = 5"

text \<open>Reading \<^verbatim>\<open>ZOMBIES_PER_WAVE[i]\<close>; \<open>None\<close> is a read outside the array.\<close>

definition ZOMBIES_PER_WAVE_at :: "int \<Rightarrow> int option" where
  "ZOMBIES_PER_WAVE_at i =
     (if 0 \<le> i \<and> i < int (length ZOMBIES_PER_WAVE) then Some (ZOMBIES_PER_WAVE ! nat i)
      else None)"

text \<open>The terrain \<^verbatim>\<open>RunMainGame\<close> builds.\<close>

definition platforms :: Terrain where
  "platforms =
     [\<lparr>plat_x = 0, plat_y = 17, plat_width = 30, plat_height = 2\<rparr>,
      \<lparr>plat_x = 2, plat_y = 12, plat_width = 8, plat_height = 1\<rparr>,
      \<lparr>plat_x = 15, plat_y = 12, plat_width = 8, plat_height = 1\<rparr>,
      \<lparr>plat_x = 10, plat_y = 8, plat_width = 5, plat_height = 1\<rparr>,
      \<lparr>plat_x = 2, plat_y = 4, plat_width = 8, plat_height = 1\<rparr>,
      \<lparr>plat_x = 15, plat_y = 4, plat_width = 8, plat_height = 1\<rparr>]"

text \<open>
  The state at the head of the main loop of a fresh run. \<open>clock\<close> is the clock read for
  \<^verbatim>\<open>startTime\<close>, \<open>ws\<close> the weather system as constructed, \<open>hs\<close> the stored high score.
\<close>

definition initRun :: "real \<Rightarrow> WeatherSystem \<Rightarrow> int \<Rightarrow> Run" where
  "initRun clock ws hs =
     \<lparr>player = (new_PhysicsEntity (real_of_int TILE_SIZE * 3) (real_of_int TILE_SIZE * 10 - 48) 48 48)
                  \<lparr>col_x := 48, col_y := 48\<rparr>,
      score = 0, startTime = clock, zombies = [], foods = [], attacking = False,
      lastAttackTime = 0, wave = 1, zombiesToSpawn = ZOMBIES_PER_WAVE ! 0,
      waveZombiesRemaining = 0, weather = ws, highScore = hs, gameState = PLAYING,
      running = True, jumping = False\<rparr>"

subsection \<open>Events\<close>

text \<open>
  The events the loop reacts to. \<open>KEYDOWN_f\<close> carries the clock read of its handler. The
  three pause-menu buttons and the back button stand for a \<^verbatim>\<open>SDL_MOUSEBUTTONUP\<close> that
  arrives while that button is in state \<^verbatim>\<open>PRESSED\<close>; hover and press tracking is left to
  the presentation layer. Saving does not change the run.
\<close>

datatype Event =
    QUIT | KEYDOWN_ESCAPE | KEYDOWN_SPACE | KEYUP_SPACE | KEYDOWN_f real
  | RESUME_RELEASED | SAVE_RELEASED | MENU_RELEASED | BACK_RELEASED | OTHER_EVENT

definition handleEvent :: "Event \<Rightarrow> Run \<Rightarrow> Run" where
  "handleEvent e s =
     (if e = QUIT then s\<lparr>running := False\<rparr>
      else if e = KEYDOWN_ESCAPE \<and> gameState s = PLAYING then s\<lparr>gameState := PAUSED\<rparr>
      else if e = KEYDOWN_ESCAPE \<and> gameState s = PAUSED then s\<lparr>gameState := PLAYING\<rparr>
      else if gameState s = PLAYING then
        (if e = KEYDOWN_SPACE \<and> onGround (player s) \<and> \<not> jumping s
           then s\<lparr>player := (accelerate 0 JUMP_FORCE (player s))\<lparr>onGround := False\<rparr>,
                  jumping := True\<rparr>
         else if e = KEYUP_SPACE then s\<lparr>jumping := False\<rparr>
         else (case e of
                 KEYDOWN_f currentTime \<Rightarrow>
                   (if currentTime - lastAttackTime s \<ge> ATTACK_COOLDOWN
                    then s\<lparr>attacking := True, lastAttackTime := currentTime\<rparr> else s)
               | _ \<Rightarrow> s))
      else if gameState s = PAUSED then
        (if e = RESUME_RELEASED then s\<lparr>gameState := PLAYING\<rparr>
         else if e = MENU_RELEASED then s\<lparr>running := False\<rparr>
         else s)
      else if e = BACK_RELEASED then s\<lparr>running := False\<rparr>
      else s)"

subsection \<open>One simulation tick\<close>

text \<open>What a tick reads from outside: keyboard, clock and the random generators.\<close>

record TickInput =
  isMovingLeft :: bool
  isMovingRight :: bool
  currentTime :: real
  rndPlatform :: nat
  rndX :: real
  rndType :: nat
  rndChance :: "nat \<Rightarrow> real"
  foodClock :: "nat \<Rightarrow> real"

text \<open>
  \<^verbatim>\<open>spawnZombie\<close>. \<open>attackTex\<close> and \<open>tankTex\<close> say whether the texture pointers are
  non-null; the three draws are \<^verbatim>\<open>platformDist(gen)\<close> (a raw draw reduced to the range
  of indices), \<^verbatim>\<open>xDist(gen)\<close> and \<^verbatim>\<open>typeDist(gen)\<close>.
\<close>

definition spawnZombie :: "Zombie list \<Rightarrow> Terrain \<Rightarrow> bool \<Rightarrow> bool \<Rightarrow> nat \<Rightarrow> real \<Rightarrow> nat \<Rightarrow> Zombie list" where
  "spawnZombie zs t attackTex tankTex rp rx0 rt =
     (if t = [] then zs
      else (let platform = t ! (rp mod length t);
                x = real_of_int (plat_x platform * TILE_SIZE) +
                    rx0 * real_of_int (plat_width platform * TILE_SIZE - 32);
                y = real_of_int (plat_y platform * TILE_SIZE - 32);
                ty = (if rt = 0 then ATTACK else TANK);
                tex = (if ty = ATTACK then attackTex else tankTex)
            in if \<not> tex then zs else zs @ [new_Zombie x y 32 32 ty]))"

text \<open>
  \<^verbatim>\<open>spawnFood\<close>: \<open>foodTex\<close> says whether the texture is non-null, \<open>chance\<close> is the draw,
  \<open>clock\<close> the clock read of the \<^verbatim>\<open>Food\<close> constructor.
\<close>

definition spawnFood :: "Food list \<Rightarrow> real \<Rightarrow> real \<Rightarrow> bool \<Rightarrow> real \<Rightarrow> real \<Rightarrow> Food list" where
  "spawnFood fs x y foodTex chance clock =
     (if \<not> foodTex then fs
      else if chance < 1 / 2 then fs @ [new_Food x y 16 16 clock] else fs)"

text \<open>C++ integer division truncates toward zero.\<close>

definition c_div :: "int \<Rightarrow> int \<Rightarrow> int" where
  "c_div a b = sgn a * sgn b * (\<bar>a\<bar> div \<bar>b\<bar>)"

text \<open>Input handling and \<^verbatim>\<open>player.update\<close> (lines 819-834), then \<^verbatim>\<open>weather.update\<close>.\<close>

definition playerStep :: "TickInput \<Rightarrow> Run \<Rightarrow> Run" where
  "playerStep inp s =
     (let p1 = (if isMovingLeft inp then accelerate (- PLAYER_ACCEL) 0 (player s) else player s);
          p2 = (if isMovingRight inp then accelerate PLAYER_ACCEL 0 p1 else p1);
          hasInput = (isMovingLeft inp \<or> isMovingRight inp)
      in s\<lparr>player := update platforms hasInput p2,
            weather := Weather_update (currentTime inp) (weather s)\<rparr>)"

text \<open>
  The spawn block (lines 841-845). Both textures are non-null here: \<^verbatim>\<open>RunMainGame\<close>
  returns before the loop otherwise.
\<close>

definition spawnStep :: "TickInput \<Rightarrow> Run \<Rightarrow> Run" where
  "spawnStep inp s =
     (if zombiesToSpawn s > 0 \<and> int (length (zombies s)) < MAX_ZOMBIES_ONSCREEN
      then s\<lparr>zombies := spawnZombie (zombies s) platforms True True
                           (rndPlatform inp) (rndX inp) (rndType inp),
             zombiesToSpawn := zombiesToSpawn s - 1,
             waveZombiesRemaining := waveZombiesRemaining s + 1\<rparr>
      else s)"

text \<open>One of the two identical contact-damage blocks (lines 852-858 and 859-865).\<close>

definition contactDamage :: "real \<Rightarrow> SDL_Rect \<Rightarrow> SDL_Rect \<Rightarrow> Zombie \<times> PhysicsEntity \<Rightarrow> Zombie \<times> PhysicsEntity" where
  "contactDamage now playerRect zombieRect zp =
     (case zp of (z, p) \<Rightarrow>
        if SDL_HasIntersection playerRect zombieRect then
          (if now - lastDamageTime z \<ge> 1 then
             (let p1 = p\<lparr>health := health p - damage z\<rparr>;
                  z1 = z\<lparr>lastDamageTime := now\<rparr>
              in (z1, if health p1 < 0 then p1\<lparr>health := 0\<rparr> else p1))
           else (z, p))
        else (z, p))"

definition attackRect :: "PhysicsEntity \<Rightarrow> SDL_Rect" where
  "attackRect p =
     \<lparr>rx = to_int (pos_x p - real_of_int (c_div MELEE_RANGE 2) + real_of_int (c_div (w p) 2)),
      ry = to_int (pos_y p - real_of_int (c_div MELEE_RANGE 2) + real_of_int (c_div (h p) 2)),
      rw = MELEE_RANGE, rh = MELEE_RANGE\<rparr>"

text \<open>
  The melee block (lines 866-881) for one zombie. The result pairs the zombie with the
  flag "pushed on \<^verbatim>\<open>zombiesToDelete\<close>". \<open>i\<close> is the position of the zombie in the
  list; it selects the draws of \<^verbatim>\<open>spawnFood\<close>.
\<close>

definition meleeBlock :: "TickInput \<Rightarrow> nat \<Rightarrow> SDL_Rect \<Rightarrow> Zombie \<Rightarrow> Run \<Rightarrow> (Zombie \<times> bool) \<times> Run" where
  "meleeBlock inp i zombieRect z s =
     (if attacking s then
        (if SDL_HasIntersection (attackRect (player s)) zombieRect then
           (let z1 = z\<lparr>health := health z - MELEE_DAMAGE\<rparr> in
            if health z1 \<le> 0 then
              ((z1, True),
               s\<lparr>foods := spawnFood (foods s) (pos_x z1) (pos_y z1) True
                             (rndChance inp i) (foodClock inp i),
                 score := score s + 100,
                 waveZombiesRemaining := waveZombiesRemaining s - 1\<rparr>)
            else ((z1, False), s))
         else ((z, False), s))
      else ((z, False), s))"

text \<open>The body of the zombie loop (lines 850-881).\<close>

definition zombieBody :: "TickInput \<Rightarrow> SDL_Rect \<Rightarrow> nat \<Rightarrow> Zombie \<Rightarrow> Run \<Rightarrow> (Zombie \<times> bool) \<times> Run" where
  "zombieBody inp playerRect i z0 s =
     (let z = Zombie_update platforms (player s) z0;
          zombieRect = getRect z;
          zp = contactDamage (currentTime inp) playerRect zombieRect
                 (contactDamage (currentTime inp) playerRect zombieRect (z, player s))
      in meleeBlock inp i zombieRect (fst zp) (s\<lparr>player := snd zp\<rparr>))"

fun zombieLoop :: "TickInput \<Rightarrow> SDL_Rect \<Rightarrow> nat \<Rightarrow> Zombie list \<Rightarrow> Run \<Rightarrow> (Zombie \<times> bool) list \<times> Run" where
  "zombieLoop inp playerRect i [] s = ([], s)"
| "zombieLoop inp playerRect i (z # zs) s =
     (let r1 = zombieBody inp playerRect i z s;
          r2 = zombieLoop inp playerRect (Suc i) zs (snd r1)
      in (fst r1 # fst r2, snd r2))"

text \<open>
  The zombie pass: the loop, the removal of the zombies on \<^verbatim>\<open>zombiesToDelete\<close> (the
  pointers of the list are distinct, so each is found and erased), the reset of
  \<^verbatim>\<open>attacking\<close>.
\<close>

definition zombiePass :: "TickInput \<Rightarrow> SDL_Rect \<Rightarrow> Run \<Rightarrow> Run" where
  "zombiePass inp playerRect s =
     (let r = zombieLoop inp playerRect 0 (zombies s) s
      in (snd r)\<lparr>zombies := map fst (filter (\<lambda>zd. \<not> snd zd) (fst r)), attacking := False\<rparr>)"

text \<open>
  The food loop (lines 894-911). The third component counts the calls of
  \<^verbatim>\<open>foods.erase\<close>.
\<close>

fun foodLoop :: "real \<Rightarrow> SDL_Rect \<Rightarrow> Food list \<Rightarrow> PhysicsEntity \<Rightarrow> Food list \<times> PhysicsEntity \<times> nat" where
  "foodLoop now playerRect [] p = ([], p, 0)"
| "foodLoop now playerRect (f0 # fs) p =
     (let food = Food_update platforms f0 in
      if now - spawnTime food \<ge> LIFETIME then
        (case foodLoop now playerRect fs p of (fs1, p1, n) \<Rightarrow> (fs1, p1, Suc n))
      else if SDL_HasIntersection playerRect (getRect food) then
        (let p0 = p\<lparr>health := health p + HEALTH_RESTORE\<rparr>;
             p1 = (if health p0 > 100 then p0\<lparr>health := 100\<rparr> else p0)
         in case foodLoop now playerRect fs p1 of (fs1, p2, n) \<Rightarrow> (fs1, p2, Suc n))
      else (case foodLoop now playerRect fs p of (fs1, p1, n) \<Rightarrow> (food # fs1, p1, n)))"

definition foodPass :: "TickInput \<Rightarrow> SDL_Rect \<Rightarrow> Run \<Rightarrow> Run" where
  "foodPass inp playerRect s =
     (case foodLoop (currentTime inp) playerRect (foods s) (player s) of
        (fs, p, n) \<Rightarrow> s\<lparr>foods := fs, player := p\<rparr>)"

text \<open>
  The wave check (lines 914-925). \<open>None\<close>: the quota table was read outside its bounds.
\<close>

definition recordHighScore :: "Run \<Rightarrow> Run" where
  "recordHighScore s = (if score s > highScore s then s\<lparr>highScore := score s\<rparr> else s)"

definition waveCheck :: "Run \<Rightarrow> Run option" where
  "waveCheck s =
     (if waveZombiesRemaining s = 0 \<and> zombiesToSpawn s = 0 \<and> wave s < TOTAL_WAVES then
        (case ZOMBIES_PER_WAVE_at (wave s + 1 - 1) of
           Some q \<Rightarrow> Some (s\<lparr>wave := wave s + 1, zombiesToSpawn := q\<rparr>)
         | None \<Rightarrow> None)
      else if waveZombiesRemaining s = 0 \<and> zombiesToSpawn s = 0 \<and> wave s = TOTAL_WAVES then
        Some ((recordHighScore s)\<lparr>gameState := VICTORY\<rparr>)
      else Some s)"

text \<open>The game-over check (lines 928-936).\<close>

definition gameOverCheck :: "Run \<Rightarrow> Run" where
  "gameOverCheck s =
     (if pos_y (player s) > real_of_int SCREEN_HEIGHT \<or> health (player s) \<le> 0
      then (recordHighScore s)\<lparr>gameState := GAME_OVER\<rparr> else s)"

text \<open>The state just before the wave check, and the whole tick (lines 817-937).\<close>

definition simulate :: "TickInput \<Rightarrow> Run \<Rightarrow> Run" where
  "simulate inp s =
     (let s1 = spawnStep inp (playerStep inp s);
          playerRect = getRect (player s1)
      in foodPass inp playerRect (zombiePass inp playerRect s1))"

definition tick :: "TickInput \<Rightarrow> Run \<Rightarrow> Run option" where
  "tick inp s =
     (if gameState s = PLAYING
      then map_option gameOverCheck (waveCheck (simulate inp s))
      else Some s)"

subsection \<open>Saving and resuming a run\<close>

text \<open>
  The snapshot the save button builds (lines 781-794); \<open>clock\<close> is its clock read.
\<close>

definition takeSnapshot :: "Run \<Rightarrow> real \<Rightarrow> (real, real) GameState" where
  "takeSnapshot s clock =
     \<lparr>playerPos = (pos_x (player s), pos_y (player s)),
      playerVel = (vel_x (player s), vel_y (player s)),
      playerHealth = health (player s), score = Run.score s,
      startTime = clock - Run.startTime s, isValid = True,
      zombies = map (\<lambda>z. (pos_x z, pos_y z, ztype z)) (Run.zombies s),
      wave = Run.wave s, zombiesToSpawn = Run.zombiesToSpawn s,
      waveZombiesRemaining = Run.waveZombiesRemaining s,
      weatherType = getType (weather s)\<rparr>"

text \<open>
  What \<^verbatim>\<open>RunMainGame\<close> does with a loaded state (lines 672-689): a valid state
  replaces the fresh values, an invalid one is ignored. \<open>clock1\<close> and \<open>clock2\<close> are the
  clock reads for \<^verbatim>\<open>startTime\<close> and of \<^verbatim>\<open>setType\<close>.
\<close>

definition restoreRun :: "(real, real) GameState \<Rightarrow> real \<Rightarrow> real \<Rightarrow> Run \<Rightarrow> Run" where
  "restoreRun state clock1 clock2 s =
     (if isValid state then
        s\<lparr>player := (player s)\<lparr>pos_x := fst (playerPos state), pos_y := snd (playerPos state),
                                vel_x := fst (playerVel state), vel_y := snd (playerVel state),
                                health := playerHealth state\<rparr>,
          Run.score := GameState.score state,
          Run.startTime := clock1 - GameState.startTime state,
          Run.zombies := Run.zombies s @
             map (\<lambda>z. case z of (x, y, t) \<Rightarrow> new_Zombie x y 32 32 t) (GameState.zombies state),
          Run.wave := GameState.wave state,
          Run.zombiesToSpawn := GameState.zombiesToSpawn state,
          Run.waveZombiesRemaining := GameState.waveZombiesRemaining state,
          weather := setType (weatherType state) clock2 (weather s)\<rparr>
      else s)"

text \<open>
  The values a loaded state denotes: \<open>fval\<close> and \<open>dval\<close> give the number a
  \<^verbatim>\<open>float\<close> and a \<^verbatim>\<open>double\<close> bit pattern stands for.
\<close>

definition GameState_values :: "(32 word \<Rightarrow> real) \<Rightarrow> (64 word \<Rightarrow> real) \<Rightarrow> (32 word, 64 word) GameState \<Rightarrow> (real, real) GameState" where
  "GameState_values fval dval state =
     \<lparr>playerPos = (fval (fst (playerPos state)), fval (snd (playerPos state))),
      playerVel = (fval (fst (playerVel state)), fval (snd (playerVel state))),
      playerHealth = playerHealth state, score = GameState.score state,
      startTime = dval (GameState.startTime state), isValid = isValid state,
      zombies = map (\<lambda>z. case z of (x, y, t) \<Rightarrow> (fval x, fval y, t)) (GameState.zombies state),
      wave = GameState.wave state, zombiesToSpawn = GameState.zombiesToSpawn state,
      waveZombiesRemaining = GameState.waveZombiesRemaining state,
      weatherType = weatherType state\<rparr>"

text \<open>
  The start of \<^verbatim>\<open>RunMainGame\<close> up to the main loop (lines 649-692): the fresh values
  and, when \<open>loadSaved\<close>, the state loaded from the save file.
\<close>

definition startRun :: "bool \<Rightarrow> Env \<Rightarrow> byte list option \<Rightarrow> (32 word \<Rightarrow> real) \<Rightarrow> (64 word \<Rightarrow> real) \<Rightarrow>
    real \<Rightarrow> real \<Rightarrow> real \<Rightarrow> WeatherSystem \<Rightarrow> int \<Rightarrow> LoadError + Run" where
  "startRun loadSaved env file fval dval clock clock1 clock2 ws hs =
     (if loadSaved then
        (case loadGameState env file of
           Inl err \<Rightarrow> Inl err
         | Inr state \<Rightarrow>
             Inr (restoreRun (GameState_values fval dval state) clock1 clock2 (initRun clock ws hs)))
      else Inr (initRun clock ws hs))"

subsection \<open>Concrete states of the scenarios\<close>

text \<open>
  A player in free fall in the clear column at the left edge (position and speed as
  after 44 ticks of falling from the top of the screen), one \<^verbatim>\<open>update\<close> later: it
  lands on the ground platform below the 10-pixel snap band.
\<close>

definition hardLanding :: PhysicsEntity where
  "hardLanding = update platforms False ((new_PhysicsEntity 12 495 48 48)\<lparr>vel_y := 22\<rparr>)"

definition landedRun :: Run where
  "landedRun = (initRun 0 \<lparr>weatherStart = 0, currentWeather = DAY\<rparr> 0)\<lparr>player := hardLanding\<rparr>"

text \<open>A run whose player stands on the ground platform.\<close>

definition standingRun :: Run where
  "standingRun = (initRun 0 \<lparr>weatherStart = 0, currentWeather = DAY\<rparr> 0)
     \<lparr>player := (new_PhysicsEntity 96 496 48 48)\<lparr>onGround := True\<rparr>\<rparr>"

text \<open>A body in the air near the left edge of the playfield, moving left at speed 3.\<close>

definition leftEdgeBody :: PhysicsEntity where
  "leftEdgeBody = (new_PhysicsEntity 12 100 48 48)\<lparr>vel_x := - 3\<rparr>"

subsection \<open>Reachable runs\<close>

text \<open>
  The states a run passes through at the head of the main loop: the fresh start, an
  event handled, a tick, and the start of a later run from the snapshot of a reachable
  state (saving writes the snapshot and loading reads the same values back). The loop
  body runs only while \<^verbatim>\<open>running\<close> holds.
\<close>

inductive reachable :: "Run \<Rightarrow> bool" where
  start: "reachable (initRun clock ws hs)"
| event: "reachable s \<Longrightarrow> running s \<Longrightarrow> reachable (handleEvent e s)"
| step: "reachable s \<Longrightarrow> running s \<Longrightarrow> tick inp s = Some s' \<Longrightarrow> reachable s'"
| resume: "reachable s \<Longrightarrow>
     reachable (restoreRun (takeSnapshot s clock) clock1 clock2 (initRun clock0 ws hs))"

text \<open>
  The invariant of the wave scheduler: the counter of remaining zombies is the
  number of live zombies, at most \<^verbatim>\<open>MAX_ZOMBIES_ONSCREEN\<close> of them, the quota is not
  negative, the wave is one of the five, and the victory screen shows only after the
  last wave is cleared.
\<close>

definition waveInv :: "Run \<Rightarrow> bool" where
  "waveInv s =
     (waveZombiesRemaining s = int (length (zombies s)) \<and>
      int (length (zombies s)) \<le> MAX_ZOMBIES_ONSCREEN \<and>
      0 \<le> zombiesToSpawn s \<and> 1 \<le> wave s \<and> wave s \<le> TOTAL_WAVES \<and>
      (if gameState s = VICTORY
       then wave s = TOTAL_WAVES \<and> zombies s = [] \<and> zombiesToSpawn s = 0 else True))"

text \<open>A tick input with no key held, and a fresh run.\<close>

definition idleInput :: TickInput where
  "idleInput =
     \<lparr>isMovingLeft = False, isMovingRight = False, currentTime = 2, rndPlatform = 0,
      rndX = 1 / 2, rndType = 0, rndChance = (\<lambda>i. 1), foodClock = (\<lambda>i. 2)\<rparr>"

definition freshRun :: Run where
  "freshRun = initRun 1 \<lparr>weatherStart = 1, currentWeather = DAY\<rparr> 0"

text \<open>
  A Tank zombie standing on the ground platform next to the standing player, and the
  run in which it is the last zombie of its wave and the player has just pressed the
  attack key at time 1.
\<close>

definition tankZombie :: Zombie where
  "tankZombie = (new_Zombie 120 512 32 32 TANK)\<lparr>onGround := True\<rparr>"

definition meleeRun :: Run where
  "meleeRun = handleEvent (KEYDOWN_f 1)
     (standingRun\<lparr>zombies := [tankZombie], zombiesToSpawn := 0, waveZombiesRemaining := 1\<rparr>)"

text \<open>A Fast zombie (type \<^verbatim>\<open>ATTACK\<close>) as the constructor builds it.\<close>

definition fastZombie :: Zombie where
  "fastZombie = new_Zombie 100 512 32 32 ATTACK"


text \<open>
  The main loop (lines 741-1077) over frames in which no event is pending: while
  \<^verbatim>\<open>running\<close> holds, one tick per frame, each with its own reads of the keyboard, the
  clock and the generators. \<open>None\<close>: a tick did not return.
\<close>

fun runTicks :: "TickInput list \<Rightarrow> Run \<Rightarrow> Run option" where
  "runTicks [] s = Some s"
| "runTicks (inp # inps) s =
     (if running s
      then (case tick inp s of None \<Rightarrow> None | Some s1 \<Rightarrow> runTicks inps s1)
      else Some s)"

text \<open>A tick in which neither movement key is held, and the idle tick at clock read \<open>t\<close>.\<close>

definition still :: "TickInput \<Rightarrow> bool" where
  "still inp = (\<not> isMovingLeft inp \<and> \<not> isMovingRight inp)"

definition tickAt :: "real \<Rightarrow> TickInput" where
  "tickAt t = idleInput\<lparr>currentTime := t\<rparr>"

text \<open>
  The contact scenario: a run in its loop and playing, with no attack armed, no pickup and
  nothing left to spawn, whose player stands on the ground platform at health \<open>hp\<close>
  and whose only zombie is a Fast zombie standing inside the player's box, with last
  damage time \<open>lastHit\<close>. \<open>contactRun\<close> is such a run at health 100 with a zombie that
  has not hit yet.
\<close>

definition inContact :: "int \<Rightarrow> real \<Rightarrow> Run \<Rightarrow> bool" where
  "inContact hp lastHit s =
     (running s \<and> gameState s = PLAYING \<and> \<not> attacking s \<and> foods s = [] \<and>
      zombiesToSpawn s = 0 \<and> waveZombiesRemaining s = 1 \<and>
      player s = (player standingRun)\<lparr>health := hp\<rparr> \<and>
      zombies s = [fastZombie\<lparr>onGround := True, lastDamageTime := lastHit\<rparr>])"

definition contactRun :: Run where
  "contactRun = standingRun\<lparr>zombies := [fastZombie\<lparr>onGround := True\<rparr>], zombiesToSpawn := 0,
     waveZombiesRemaining := 1\<rparr>"


subsection \<open>States that can be stored\<close>

text \<open>
  The ranges of the C++ types: an \<^verbatim>\<open>int\<close> has 32 bits, a \<^verbatim>\<open>size_t\<close> 64. A
  \<^verbatim>\<open>GameState\<close> of the program has all its \<^verbatim>\<open>int\<close> fields in range and a list whose
  length is a \<^verbatim>\<open>size_t\<close>.
\<close>

definition int32 :: "int \<Rightarrow> bool" where
  "int32 i = (- (2 ^ 31) \<le> i \<and> i < 2 ^ 31)"

definition size_t :: "nat \<Rightarrow> bool" where
  "size_t n = (n < 2 ^ 64)"

definition storable :: "(32 word, 64 word) GameState \<Rightarrow> bool" where
  "storable state =
     (int32 (playerHealth state) \<and> int32 (GameState.score state) \<and>
      int32 (GameState.wave state) \<and> int32 (GameState.zombiesToSpawn state) \<and>
      int32 (GameState.waveZombiesRemaining state) \<and> int32 (weatherType state) \<and>
      size_t (length (GameState.zombies state)))"

text \<open>
  A snapshot with two zombies (the floats are 96.0, 496.0, 119.5, 512.0, 200.0, the
  double is 12.0), and an environment whose uninitialised memory holds -7, 123456 and
  zeros.
\<close>

definition savedState :: "(32 word, 64 word) GameState" where
  "savedState =
     \<lparr>playerPos = (0x42C00000, 0x43F80000), playerVel = (0, 0), playerHealth = 90,
      score = 300, startTime = 0x4028000000000000, isValid = True,
      zombies = [(0x42EF0000, 0x44000000, TANK), (0x43480000, 0x44000000, ATTACK)],
      wave = 2, zombiesToSpawn = 17, waveZombiesRemaining = 2, weatherType = 1\<rparr>"

definition junkEnv :: Env where
  "junkEnv =
     \<lparr>uHealth = - 7, uScore = 123456, uStartTime = 0, uZombieCount = 0,
      uX = (\<lambda>i. 0), uY = (\<lambda>i. 0), uType = (\<lambda>i. 0), allocLimit = 1000\<rparr>"

section \<open>Properties\<close>

subsection \<open>Evaluation helpers\<close>

lemma to_int_numeral [simp]: "to_int (numeral n) = numeral n" "to_int 0 = 0" "to_int 1 = 1"
  by (simp_all add: to_int_def)

lemma hardLanding_eval:
  "hardLanding = \<lparr>pos_x = 12, pos_y = 492, vel_x = 0, vel_y = 492, col_x = 48, col_y = 48,
     w = 48, h = 48, onGround = True, gravity = True, friction = True, health = 100\<rparr>"
proof -
  have ti: "to_int (1035 / 2) = 517" "to_int (1131 / 2) = 565"
    by (simp_all add: to_int_def)
  show ?thesis
    unfolding hardLanding_def update_def
    apply (simp add: integrate_def new_PhysicsEntity_def GRAVITY_def)
    apply (simp add: resolveCollisions_def groundBlock_def grounded_def platforms_def
        platformRect_def TILE_SIZE_def ti)
    apply (simp add: ceilingBlock_def ceilingCol_def platformRect_def TILE_SIZE_def
        leftBlock_def leftCol_def rightBlock_def rightCol_def)
    apply (simp add: clampToScreen_def SCREEN_WIDTH_def SCREEN_HEIGHT_def)
    done
qed

subsection \<open>What the physics leaves alone\<close>

lemma groundBlock_keeps [simp]:
  "health (groundBlock t e) = health e" "PhysicsEntity.more (groundBlock t e) = PhysicsEntity.more e"
  "w (groundBlock t e) = w e" "h (groundBlock t e) = h e"
  by (simp_all add: groundBlock_def Let_def split: option.split)

lemma ceilingBlock_keeps [simp]:
  "health (ceilingBlock t e) = health e" "PhysicsEntity.more (ceilingBlock t e) = PhysicsEntity.more e"
  "w (ceilingBlock t e) = w e" "h (ceilingBlock t e) = h e"
  by (simp_all add: ceilingBlock_def Let_def split: option.split)

lemma leftBlock_keeps [simp]:
  "health (leftBlock t e) = health e" "PhysicsEntity.more (leftBlock t e) = PhysicsEntity.more e"
  "w (leftBlock t e) = w e" "h (leftBlock t e) = h e"
  by (simp_all add: leftBlock_def Let_def split: option.split)

lemma rightBlock_keeps [simp]:
  "health (rightBlock t e) = health e" "PhysicsEntity.more (rightBlock t e) = PhysicsEntity.more e"
  "w (rightBlock t e) = w e" "h (rightBlock t e) = h e"
  by (simp_all add: rightBlock_def Let_def split: option.split)

lemma resolveCollisions_keeps [simp]:
  "health (resolveCollisions t e) = health e"
  "PhysicsEntity.more (resolveCollisions t e) = PhysicsEntity.more e"
  "w (resolveCollisions t e) = w e" "h (resolveCollisions t e) = h e"
  by (simp_all add: resolveCollisions_def)

subsection \<open>Vertical velocity of a grounded body\<close>

text \<open>
  After \<^verbatim>\<open>update\<close> a body that is on the ground has vertical velocity 0, unless
  the last branch of the playfield clamp has stored the coordinate there.
\<close>

lemma groundBlock_grounded:
  "\<not> onGround e \<Longrightarrow> onGround (groundBlock t e) \<Longrightarrow> vel_y (groundBlock t e) = 0"
  by (simp add: groundBlock_def Let_def split: if_splits option.splits)

lemma ceilingBlock_grounded:
  "onGround (ceilingBlock t e) = onGround e"
  "vel_y e = 0 \<Longrightarrow> vel_y (ceilingBlock t e) = 0"
  by (simp_all add: ceilingBlock_def Let_def split: option.splits)

lemma leftBlock_grounded:
  "onGround (leftBlock t e) = onGround e" "vel_y (leftBlock t e) = vel_y e"
  by (simp_all add: leftBlock_def Let_def split: option.splits)

lemma rightBlock_grounded:
  "onGround (rightBlock t e) = onGround e" "vel_y (rightBlock t e) = vel_y e"
  by (simp_all add: rightBlock_def Let_def split: option.splits)

lemma resolveCollisions_grounded:
  assumes "onGround (resolveCollisions t e)"
  shows "vel_y (resolveCollisions t e) = 0"
proof -
  let ?g = "groundBlock t (e\<lparr>onGround := False\<rparr>)"
  from assms have "onGround ?g"
    by (simp add: resolveCollisions_def rightBlock_grounded leftBlock_grounded ceilingBlock_grounded)
  then have "vel_y ?g = 0"
    by (intro groundBlock_grounded) simp_all
  then show ?thesis
    by (simp add: resolveCollisions_def rightBlock_grounded leftBlock_grounded ceilingBlock_grounded)
qed

lemma update_grounded:
  assumes "onGround (update t hasInput e)"
  shows "vel_y (update t hasInput e) = 0 \<or>
     vel_y (update t hasInput e) = real_of_int (SCREEN_HEIGHT - h e - 60)"
proof -
  let ?r = "resolveCollisions t (integrate hasInput e)"
  have hr: "h (integrate hasInput e) = h e" by (simp add: integrate_def Let_def)
  from assms have "onGround ?r"
    by (simp add: update_def clampToScreen_def split: if_splits)
  then have "vel_y ?r = 0" by (rule resolveCollisions_grounded)
  then show ?thesis
    by (simp add: update_def clampToScreen_def hr)
qed

subsection \<open>C8: the jump intent\<close>

text \<open>
  C8, as stated, fails: the jump does not set the vertical velocity to
  \<^verbatim>\<open>JUMP_FORCE\<close>, it calls \<^verbatim>\<open>accelerate(0, JUMP_FORCE)\<close>, which adds it. After a hard
  landing the player is on the ground with vertical velocity 492 (the playfield clamp
  stored the coordinate there), and the jump leaves it at 479, not at -13.
\<close>

theorem C8_jump_counterexample:
  "gameState landedRun = PLAYING \<and> onGround (player landedRun) \<and> \<not> jumping landedRun \<and>
   vel_y (player landedRun) = 492 \<and>
   vel_y (player (handleEvent KEYDOWN_SPACE landedRun)) = 479 \<and> JUMP_FORCE = - 13"
  by (simp add: landedRun_def hardLanding_eval initRun_def handleEvent_def accelerate_def
      JUMP_FORCE_def MAX_SPEED_def)

text \<open>
  C8, amended: while playing, a space key press with the player on the ground and the
  key not held since the last jump adds \<^verbatim>\<open>JUMP_FORCE\<close> to the vertical velocity (which
  gives exactly -13 when it was 0) and clears \<^verbatim>\<open>onGround\<close>; the press changes the player
  only under these conditions, and with \<^verbatim>\<open>onGround\<close> false it changes nothing at all.
\<close>

theorem C8_jump:
  "(gameState s = PLAYING \<and> onGround (player s) \<and> \<not> jumping s \<longrightarrow>
      vel_y (player (handleEvent KEYDOWN_SPACE s)) = vel_y (player s) + JUMP_FORCE \<and>
      (vel_y (player s) = 0 \<longrightarrow> vel_y (player (handleEvent KEYDOWN_SPACE s)) = - 13) \<and>
      \<not> onGround (player (handleEvent KEYDOWN_SPACE s))) \<and>
   (player (handleEvent KEYDOWN_SPACE s) \<noteq> player s \<longrightarrow>
      gameState s = PLAYING \<and> onGround (player s) \<and> \<not> jumping s) \<and>
   (\<not> onGround (player s) \<longrightarrow> handleEvent KEYDOWN_SPACE s = s)"
  by (auto simp add: handleEvent_def accelerate_def Let_def JUMP_FORCE_def)

theorem C8_jump_witness:
  "vel_y (player (handleEvent KEYDOWN_SPACE standingRun)) = - 13 \<and>
   \<not> onGround (player (handleEvent KEYDOWN_SPACE standingRun)) \<and>
   handleEvent KEYDOWN_SPACE (handleEvent KEYDOWN_SPACE standingRun) =
     handleEvent KEYDOWN_SPACE standingRun"
proof -
  have pre: "gameState standingRun = PLAYING \<and> onGround (player standingRun) \<and>
      \<not> jumping standingRun" and v0: "vel_y (player standingRun) = 0"
    by (simp_all add: standingRun_def initRun_def new_PhysicsEntity_def)
  from pre v0 C8_jump [of standingRun]
  have j: "vel_y (player (handleEvent KEYDOWN_SPACE standingRun)) = - 13"
    and g: "\<not> onGround (player (handleEvent KEYDOWN_SPACE standingRun))"
    by blast+
  from g C8_jump [of "handleEvent KEYDOWN_SPACE standingRun"]
  have "handleEvent KEYDOWN_SPACE (handleEvent KEYDOWN_SPACE standingRun) =
     handleEvent KEYDOWN_SPACE standingRun" by blast
  with j g show ?thesis by blast
qed

subsection \<open>C3: the horizontal speed limit\<close>

text \<open>\<^verbatim>\<open>accelerate\<close> itself never leaves the limit.\<close>

lemma accelerate_vel_x_bounded: "\<bar>vel_x (accelerate x y e)\<bar> \<le> MAX_SPEED"
  by (auto simp add: accelerate_def Let_def MAX_SPEED_def)

text \<open>
  C3: the code at the failing input. A body within the speed limit that crosses the
  left margin leaves \<^verbatim>\<open>update\<close> with horizontal velocity 10, twice \<^verbatim>\<open>MAX_SPEED\<close>: the
  playfield clamp stores the clamped coordinate in the velocity.
\<close>

theorem C3_playfield_clamp_exceeds_MAX_SPEED:
  "\<bar>vel_x leftEdgeBody\<bar> \<le> MAX_SPEED \<and> MAX_SPEED = 5 \<and>
   vel_x (update platforms False leftEdgeBody) = 10 \<and>
   pos_x (update platforms False leftEdgeBody) = 10"
proof -
  have ti: "to_int (201 / 2) = 100" "to_int (297 / 2) = 148" "to_int (295 / 2) = 147"
    by (simp_all add: to_int_def)
  show ?thesis
    unfolding leftEdgeBody_def update_def
    apply (simp add: integrate_def new_PhysicsEntity_def GRAVITY_def MAX_SPEED_def)
    apply (simp add: resolveCollisions_def groundBlock_def grounded_def platforms_def
        platformRect_def TILE_SIZE_def ti)
    apply (simp add: ceilingBlock_def ceilingCol_def platformRect_def TILE_SIZE_def
        leftBlock_def leftCol_def rightBlock_def rightCol_def ti)
    apply (simp add: clampToScreen_def SCREEN_WIDTH_def SCREEN_HEIGHT_def)
    done
qed

subsection \<open>The wave scheduler: what each phase of a tick preserves\<close>

lemma spawnZombie_length:
  "length (spawnZombie zs t a b rp rx0 rt) \<le> Suc (length zs)"
  by (simp add: spawnZombie_def Let_def)

lemma spawnZombie_platforms:
  "length (spawnZombie zs platforms True True rp rx0 rt) = Suc (length zs)"
  by (simp add: spawnZombie_def Let_def platforms_def)

lemma playerStep_fields [simp]:
  "zombies (playerStep inp s) = zombies s"
  "zombiesToSpawn (playerStep inp s) = zombiesToSpawn s"
  "waveZombiesRemaining (playerStep inp s) = waveZombiesRemaining s"
  "wave (playerStep inp s) = wave s"
  "gameState (playerStep inp s) = gameState s"
  "foods (playerStep inp s) = foods s"
  "attacking (playerStep inp s) = attacking s"
  "score (playerStep inp s) = score s"
  by (simp_all add: playerStep_def Let_def)

lemma spawnStep_fields [simp]:
  "wave (spawnStep inp s) = wave s"
  "gameState (spawnStep inp s) = gameState s"
  "player (spawnStep inp s) = player s"
  "foods (spawnStep inp s) = foods s"
  "attacking (spawnStep inp s) = attacking s"
  "score (spawnStep inp s) = score s"
  by (simp_all add: spawnStep_def)

lemma meleeBlock_fields [simp]:
  "zombies (snd (meleeBlock inp i r z s)) = zombies s"
  "zombiesToSpawn (snd (meleeBlock inp i r z s)) = zombiesToSpawn s"
  "wave (snd (meleeBlock inp i r z s)) = wave s"
  "gameState (snd (meleeBlock inp i r z s)) = gameState s"
  "attacking (snd (meleeBlock inp i r z s)) = attacking s"
  "player (snd (meleeBlock inp i r z s)) = player s"
  by (simp_all add: meleeBlock_def Let_def)

lemma meleeBlock_remaining:
  "waveZombiesRemaining (snd (meleeBlock inp i r z s)) =
     waveZombiesRemaining s - (if snd (fst (meleeBlock inp i r z s)) then 1 else 0)"
  by (simp add: meleeBlock_def Let_def)

lemma zombieBody_fields [simp]:
  "zombies (snd (zombieBody inp r i z s)) = zombies s"
  "zombiesToSpawn (snd (zombieBody inp r i z s)) = zombiesToSpawn s"
  "wave (snd (zombieBody inp r i z s)) = wave s"
  "gameState (snd (zombieBody inp r i z s)) = gameState s"
  "attacking (snd (zombieBody inp r i z s)) = attacking s"
  by (simp_all add: zombieBody_def Let_def)

lemma zombieBody_remaining:
  "waveZombiesRemaining (snd (zombieBody inp r i z s)) =
     waveZombiesRemaining s - (if snd (fst (zombieBody inp r i z s)) then 1 else 0)"
  unfolding zombieBody_def Let_def
  by (subst meleeBlock_remaining) simp

lemma zombieLoop_length [simp]: "length (fst (zombieLoop inp r i zs s)) = length zs"
  by (induction zs arbitrary: i s) (simp_all add: Let_def)

lemma zombieLoop_fields [simp]:
  "zombies (snd (zombieLoop inp r i zs s)) = zombies s"
  "zombiesToSpawn (snd (zombieLoop inp r i zs s)) = zombiesToSpawn s"
  "wave (snd (zombieLoop inp r i zs s)) = wave s"
  "gameState (snd (zombieLoop inp r i zs s)) = gameState s"
  "attacking (snd (zombieLoop inp r i zs s)) = attacking s"
  by (induction zs arbitrary: i s) (simp_all add: Let_def)

lemma zombieLoop_remaining:
  "waveZombiesRemaining (snd (zombieLoop inp r i zs s)) =
     waveZombiesRemaining s - int (length (filter snd (fst (zombieLoop inp r i zs s))))"
proof (induction zs arbitrary: i s)
  case Nil
  show ?case by simp
next
  case (Cons z zs)
  show ?case
    by (simp add: Let_def Cons.IH zombieBody_remaining)
qed

lemma length_filter_split:
  "length (filter (\<lambda>x. \<not> P x) xs) + length (filter P xs) = length xs"
  by (induction xs) simp_all

lemma zombiePass_fields [simp]:
  "zombiesToSpawn (zombiePass inp r s) = zombiesToSpawn s"
  "wave (zombiePass inp r s) = wave s"
  "gameState (zombiePass inp r s) = gameState s"
  "attacking (zombiePass inp r s) = False"
  by (simp_all add: zombiePass_def Let_def)

lemma zombiePass_length: "length (zombies (zombiePass inp r s)) \<le> length (zombies s)"
  using length_filter_le [of "\<lambda>zd. \<not> snd zd" "fst (zombieLoop inp r 0 (zombies s) s)"]
  by (simp add: zombiePass_def Let_def)

lemma zombiePass_remaining:
  "waveZombiesRemaining (zombiePass inp r s) - int (length (zombies (zombiePass inp r s))) =
   waveZombiesRemaining s - int (length (zombies s))"
  using length_filter_split [of snd "fst (zombieLoop inp r 0 (zombies s) s)"]
  by (simp add: zombiePass_def Let_def zombieLoop_remaining)

lemma foodPass_fields [simp]:
  "zombies (foodPass inp r s) = zombies s"
  "zombiesToSpawn (foodPass inp r s) = zombiesToSpawn s"
  "waveZombiesRemaining (foodPass inp r s) = waveZombiesRemaining s"
  "wave (foodPass inp r s) = wave s"
  "gameState (foodPass inp r s) = gameState s"
  "attacking (foodPass inp r s) = attacking s"
  by (simp_all add: foodPass_def split: prod.splits)

lemma simulate_fields [simp]:
  "wave (simulate inp s) = wave s"
  "gameState (simulate inp s) = gameState s"
  "attacking (simulate inp s) = False"
  by (simp_all add: simulate_def Let_def)

lemma simulate_toSpawn:
  "zombiesToSpawn (simulate inp s) = zombiesToSpawn (spawnStep inp (playerStep inp s))"
  by (simp add: simulate_def Let_def)

lemma simulate_length:
  "length (zombies (simulate inp s)) \<le> length (zombies (spawnStep inp (playerStep inp s)))"
  by (simp add: simulate_def Let_def zombiePass_length)

lemma simulate_remaining:
  "waveZombiesRemaining (simulate inp s) - int (length (zombies (simulate inp s))) =
   waveZombiesRemaining (spawnStep inp (playerStep inp s)) -
     int (length (zombies (spawnStep inp (playerStep inp s))))"
  by (simp add: simulate_def Let_def zombiePass_remaining)

lemma spawnStep_length: "length (zombies (spawnStep inp s)) \<le> Suc (length (zombies s))"
  by (simp add: spawnStep_def spawnZombie_length)

lemma spawnStep_toSpawn: "zombiesToSpawn s - 1 \<le> zombiesToSpawn (spawnStep inp s)"
  by (simp add: spawnStep_def)

lemma gameOverCheck_fields [simp]:
  "zombies (gameOverCheck s) = zombies s"
  "zombiesToSpawn (gameOverCheck s) = zombiesToSpawn s"
  "waveZombiesRemaining (gameOverCheck s) = waveZombiesRemaining s"
  "wave (gameOverCheck s) = wave s"
  by (simp_all add: gameOverCheck_def recordHighScore_def)

lemma waveCheck_Some:
  assumes "waveCheck s = Some s'"
  shows "zombies s' = zombies s" and "waveZombiesRemaining s' = waveZombiesRemaining s"
    and "zombiesToSpawn s' \<ge> zombiesToSpawn s"
  using assms
  by (auto simp add: waveCheck_def ZOMBIES_PER_WAVE_at_def ZOMBIES_PER_WAVE_def
      recordHighScore_def nth_Cons' split: if_splits option.splits)

subsection \<open>C10: one spawn per tick\<close>

text \<open>
  C10: the spawn block admits at most one zombie and takes at most one from the quota,
  and so does a whole tick: from any state, after a tick the number of live zombies has
  grown by at most one and the number left to spawn has dropped by at most one.
\<close>

theorem C10_at_most_one_spawn_per_tick:
  "length (zombies (spawnStep inp s)) \<le> length (zombies s) + 1 \<and>
   zombiesToSpawn s - 1 \<le> zombiesToSpawn (spawnStep inp s) \<and>
   (case tick inp s of None \<Rightarrow> True
    | Some s' \<Rightarrow> length (zombies s') \<le> length (zombies s) + 1 \<and>
        zombiesToSpawn s - 1 \<le> zombiesToSpawn s')"
proof -
  have a: "length (zombies (spawnStep inp s)) \<le> length (zombies s) + 1"
    using spawnStep_length [of inp s] by simp
  have b: "zombiesToSpawn s - 1 \<le> zombiesToSpawn (spawnStep inp s)"
    by (rule spawnStep_toSpawn)
  have c: "length (zombies s') \<le> length (zombies s) + 1 \<and>
        zombiesToSpawn s - 1 \<le> zombiesToSpawn s'" if t: "tick inp s = Some s'" for s'
  proof (cases "gameState s = PLAYING")
    case False
    with t show ?thesis by (simp add: tick_def)
  next
    case True
    with t obtain m where m: "waveCheck (simulate inp s) = Some m" and s': "s' = gameOverCheck m"
      by (auto simp add: tick_def)
    have "length (zombies (simulate inp s)) \<le> length (zombies s) + 1"
      using simulate_length [of inp s] spawnStep_length [of inp "playerStep inp s"] by simp
    moreover have "zombiesToSpawn s - 1 \<le> zombiesToSpawn (simulate inp s)"
      using spawnStep_toSpawn [of "playerStep inp s" inp] by (simp add: simulate_toSpawn)
    ultimately show ?thesis
      using waveCheck_Some [OF m] s' by simp
  qed
  from a b c show ?thesis by (simp split: option.split)
qed

lemma handleEvent_fields [simp]:
  "zombies (handleEvent e s) = zombies s"
  "zombiesToSpawn (handleEvent e s) = zombiesToSpawn s"
  "waveZombiesRemaining (handleEvent e s) = waveZombiesRemaining s"
  "wave (handleEvent e s) = wave s"
  by (simp_all add: handleEvent_def split: Event.split)

lemma handleEvent_VICTORY:
  "(gameState (handleEvent e s) = VICTORY) = (gameState s = VICTORY)"
  by (cases "gameState s") (simp_all add: handleEvent_def split: Event.split)

lemma waveInv_initRun: "waveInv (initRun clock ws hs)"
  by (simp add: waveInv_def initRun_def ZOMBIES_PER_WAVE_def MAX_ZOMBIES_ONSCREEN_def
      TOTAL_WAVES_def)

lemma waveInv_handleEvent: "waveInv s \<Longrightarrow> waveInv (handleEvent e s)"
  by (simp add: waveInv_def handleEvent_VICTORY)

lemma waveInv_resume:
  "waveInv s \<Longrightarrow> waveInv (restoreRun (takeSnapshot s clock) clock1 clock2 (initRun clock0 ws hs))"
  by (simp add: waveInv_def restoreRun_def takeSnapshot_def initRun_def)

lemma spawnStep_inv:
  assumes "waveZombiesRemaining s = int (length (zombies s))"
    and "int (length (zombies s)) \<le> MAX_ZOMBIES_ONSCREEN" and "0 \<le> zombiesToSpawn s"
  shows "waveZombiesRemaining (spawnStep inp s) = int (length (zombies (spawnStep inp s)))"
    and "int (length (zombies (spawnStep inp s))) \<le> MAX_ZOMBIES_ONSCREEN"
    and "0 \<le> zombiesToSpawn (spawnStep inp s)"
  using assms by (simp_all add: spawnStep_def spawnZombie_platforms)

lemma simulate_inv:
  assumes "waveZombiesRemaining s = int (length (zombies s))"
    and "int (length (zombies s)) \<le> MAX_ZOMBIES_ONSCREEN" and "0 \<le> zombiesToSpawn s"
  shows "waveZombiesRemaining (simulate inp s) = int (length (zombies (simulate inp s)))"
    and "int (length (zombies (simulate inp s))) \<le> MAX_ZOMBIES_ONSCREEN"
    and "0 \<le> zombiesToSpawn (simulate inp s)"
proof -
  let ?m = "spawnStep inp (playerStep inp s)"
  have p: "waveZombiesRemaining (playerStep inp s) = int (length (zombies (playerStep inp s)))"
    "int (length (zombies (playerStep inp s))) \<le> MAX_ZOMBIES_ONSCREEN"
    "0 \<le> zombiesToSpawn (playerStep inp s)"
    using assms by simp_all
  note m = spawnStep_inv [OF p, of inp]
  show "waveZombiesRemaining (simulate inp s) = int (length (zombies (simulate inp s)))"
    using simulate_remaining [of inp s] m(1) by simp
  show "int (length (zombies (simulate inp s))) \<le> MAX_ZOMBIES_ONSCREEN"
    using simulate_length [of inp s] m(2) by simp
  show "0 \<le> zombiesToSpawn (simulate inp s)"
    using m(3) by (simp add: simulate_toSpawn)
qed

text \<open>On a state that satisfies the invariant the wave check reads inside the table.\<close>

lemma waveCheck_cases:
  assumes "1 \<le> wave s" and "wave s \<le> TOTAL_WAVES"
  shows "waveCheck s =
     (if waveZombiesRemaining s = 0 \<and> zombiesToSpawn s = 0 \<and> wave s < TOTAL_WAVES
      then Some (s\<lparr>wave := wave s + 1, zombiesToSpawn := ZOMBIES_PER_WAVE ! nat (wave s)\<rparr>)
      else if waveZombiesRemaining s = 0 \<and> zombiesToSpawn s = 0
      then Some ((recordHighScore s)\<lparr>gameState := VICTORY\<rparr>)
      else Some s)"
  using assms
  by (auto simp add: waveCheck_def ZOMBIES_PER_WAVE_at_def ZOMBIES_PER_WAVE_def TOTAL_WAVES_def)

lemma quota_nonneg: "1 \<le> i \<Longrightarrow> i < TOTAL_WAVES \<Longrightarrow> 0 \<le> ZOMBIES_PER_WAVE ! nat i"
proof -
  assume a: "1 \<le> i" "i < TOTAL_WAVES"
  then have "nat i \<in> {1, 2, 3, 4}" by (auto simp add: TOTAL_WAVES_def)
  then show ?thesis by (auto simp add: ZOMBIES_PER_WAVE_def)
qed

lemma recordHighScore_fields [simp]:
  "zombies (recordHighScore s) = zombies s"
  "zombiesToSpawn (recordHighScore s) = zombiesToSpawn s"
  "waveZombiesRemaining (recordHighScore s) = waveZombiesRemaining s"
  "wave (recordHighScore s) = wave s"
  "gameState (recordHighScore s) = gameState s"
  by (simp_all add: recordHighScore_def)

lemma gameOverCheck_VICTORY:
  "gameState (gameOverCheck s) = VICTORY \<Longrightarrow> gameState s = VICTORY"
  by (simp add: gameOverCheck_def split: if_splits)

lemma waveInv_tick:
  assumes inv: "waveInv s" and t: "tick inp s = Some s'"
  shows "waveInv s'"
proof (cases "gameState s = PLAYING")
  case False
  with t inv show ?thesis by (simp add: tick_def)
next
  case True
  let ?m = "simulate inp s"
  from inv have i: "waveZombiesRemaining s = int (length (zombies s))"
    "int (length (zombies s)) \<le> MAX_ZOMBIES_ONSCREEN" "0 \<le> zombiesToSpawn s"
    and wv: "1 \<le> wave s" "wave s \<le> TOTAL_WAVES"
    by (simp_all add: waveInv_def)
  note m = simulate_inv [OF i, of inp]
  have wm: "1 \<le> wave ?m" "wave ?m \<le> TOTAL_WAVES" using wv by simp_all
  have gm: "gameState ?m = PLAYING" using True by simp
  from t True obtain c where c: "waveCheck ?m = Some c" and s': "s' = gameOverCheck c"
    by (auto simp add: tick_def)
  have "waveInv c"
    using c m wm gm quota_nonneg [of "wave s"]
    by (auto simp add: waveCheck_cases [OF wm] waveInv_def split: if_splits)
  then show ?thesis
    unfolding s' waveInv_def
    using gameOverCheck_VICTORY [of c]
    by (auto split: if_splits)
qed

lemma reachable_waveInv: "reachable s \<Longrightarrow> waveInv s"
proof (induction rule: reachable.induct)
  case (start clock ws hs)
  show ?case by (rule waveInv_initRun)
next
  case (event s e)
  then show ?case by (simp add: waveInv_handleEvent)
next
  case (step s inp s')
  then show ?case by (simp add: waveInv_tick)
next
  case (resume s clock clock1 clock2 clock0 ws hs)
  then show ?case by (simp add: waveInv_resume)
qed

lemma tick_progress:
  assumes "waveInv s"
  shows "\<exists>s'. tick inp s = Some s'"
proof -
  from assms have wm: "1 \<le> wave (simulate inp s)" "wave (simulate inp s) \<le> TOTAL_WAVES"
    by (simp_all add: waveInv_def)
  show ?thesis
    by (simp add: tick_def waveCheck_cases [OF wm])
qed



subsection \<open>C5: the on-screen cap\<close>


lemma freshRun_reachable: "reachable freshRun"
  unfolding freshRun_def by (rule reachable.start)

lemma freshRun_fields:
  "zombies freshRun = []" "zombiesToSpawn freshRun = 15" "wave freshRun = 1"
  "gameState freshRun = PLAYING" "waveZombiesRemaining freshRun = 0"
  by (simp_all add: freshRun_def initRun_def ZOMBIES_PER_WAVE_def)


subsection \<open>C4: wave advance and victory\<close>



theorem C10_at_most_one_spawn_per_tick_witness:
  "\<exists>s'. tick idleInput freshRun = Some s' \<and> length (zombies s') \<le> 1 \<and>
     14 \<le> zombiesToSpawn s'"
proof -
  obtain s' where t: "tick idleInput freshRun = Some s'"
    using tick_progress [OF reachable_waveInv [OF freshRun_reachable]] by blast
  from C10_at_most_one_spawn_per_tick [of idleInput freshRun] t
  show ?thesis by (simp add: freshRun_fields)
qed

subsection \<open>What the zombie update leaves alone\<close>

lemma clampZombie_keeps [simp]:
  "health (clampZombie z) = health z" "lastDamageTime (clampZombie z) = lastDamageTime z"
  "damage (clampZombie z) = damage z" "ztype (clampZombie z) = ztype z"
  by (simp_all add: clampZombie_def)

lemma Zombie_more: "lastDamageTime z = lastDamageTime z' \<and> damage z = damage z' \<and> ztype z = ztype z'"
  if "PhysicsEntity.more z = PhysicsEntity.more z'" for z z' :: Zombie
  using that by (cases z, cases z') simp

lemma Zombie_update_keeps [simp]:
  "health (Zombie_update t p z) = health z"
  "lastDamageTime (Zombie_update t p z) = lastDamageTime z"
  "damage (Zombie_update t p z) = damage z"
  "ztype (Zombie_update t p z) = ztype z"
  for z :: Zombie
proof -
  let ?pre = "\<lambda>z4. resolveCollisions t z4"
  show "health (Zombie_update t p z) = health z"
    by (simp add: Zombie_update_def Let_def)
  have m: "PhysicsEntity.more (resolveCollisions t z4) = PhysicsEntity.more z4" for z4 :: Zombie
    by simp
  have k: "lastDamageTime (resolveCollisions t z4) = lastDamageTime z4 \<and>
      damage (resolveCollisions t z4) = damage z4 \<and> ztype (resolveCollisions t z4) = ztype z4"
    for z4 :: Zombie
    using Zombie_more [OF m [of z4]] by simp
  show "lastDamageTime (Zombie_update t p z) = lastDamageTime z"
    "damage (Zombie_update t p z) = damage z"
    "ztype (Zombie_update t p z) = ztype z"
    by (simp_all add: Zombie_update_def Let_def k)
qed

subsection \<open>The zombie loop\<close>

lemma health_update_ignored [simp]:
  "Zombie_update t (p\<lparr>health := x\<rparr>) z = Zombie_update t p z"
  "attackRect (p\<lparr>health := x\<rparr>) = attackRect p"
  by (simp_all add: Zombie_update_def attackRect_def)

lemma contactDamage_eq:
  "contactDamage now pr zr (z, p) =
     (if SDL_HasIntersection pr zr \<and> now - lastDamageTime z \<ge> 1
      then (z\<lparr>lastDamageTime := now\<rparr>, p\<lparr>health := max 0 (health p - damage z)\<rparr>)
      else (z, p))"
  by (simp add: contactDamage_def Let_def max_def)

lemma contactDamage_twice:
  "contactDamage now pr zr (contactDamage now pr zr (z, p)) = contactDamage now pr zr (z, p)"
  by (simp add: contactDamage_eq)

lemma contactDamage_zombie_health [simp]:
  "health (fst (contactDamage now pr zr (z, p))) = health z"
  by (simp add: contactDamage_eq)

lemma contactDamage_player:
  "snd (contactDamage now pr zr (z, p)) = p\<lparr>health := health (snd (contactDamage now pr zr (z, p)))\<rparr>"
  by (simp add: contactDamage_eq)

lemma meleeBlock_result:
  "fst (meleeBlock inp i zr z s) =
     (if attacking s \<and> SDL_HasIntersection (attackRect (player s)) zr
      then (z\<lparr>health := health z - MELEE_DAMAGE\<rparr>, health z - MELEE_DAMAGE \<le> 0)
      else (z, False))"
  by (simp add: meleeBlock_def Let_def)

lemma zombieBody_player:
  "player (snd (zombieBody inp r i z s)) =
     snd (contactDamage (currentTime inp) r (getRect (Zombie_update platforms (player s) z))
            (Zombie_update platforms (player s) z, player s))"
  by (simp add: zombieBody_def Let_def contactDamage_twice)

lemma zombieBody_player_place:
  "\<exists>x. player (snd (zombieBody inp r i z s)) = (player s)\<lparr>health := x\<rparr>"
  unfolding zombieBody_player
  using contactDamage_player by blast

lemma zombieBody_result:
  "health (fst (fst (zombieBody inp r i z s))) =
     (if attacking s \<and>
         SDL_HasIntersection (attackRect (player s)) (getRect (Zombie_update platforms (player s) z))
      then health z - MELEE_DAMAGE else health z)"
  "snd (fst (zombieBody inp r i z s)) =
     (attacking s \<and>
      SDL_HasIntersection (attackRect (player s)) (getRect (Zombie_update platforms (player s) z)) \<and>
      health z - MELEE_DAMAGE \<le> 0)"
proof -
  let ?z = "Zombie_update platforms (player s) z"
  let ?zp = "contactDamage (currentTime inp) r (getRect ?z) (?z, player s)"
  have b: "zombieBody inp r i z s = meleeBlock inp i (getRect ?z) (fst ?zp) (s\<lparr>player := snd ?zp\<rparr>)"
    by (simp add: zombieBody_def Let_def contactDamage_twice)
  obtain x where x: "snd ?zp = (player s)\<lparr>health := x\<rparr>"
    using contactDamage_player by blast
  have hz: "health (fst ?zp) = health z" by simp
  show "health (fst (fst (zombieBody inp r i z s))) =
     (if attacking s \<and> SDL_HasIntersection (attackRect (player s)) (getRect ?z)
      then health z - MELEE_DAMAGE else health z)"
    unfolding b meleeBlock_result using hz by (simp add: x)
  show "snd (fst (zombieBody inp r i z s)) =
     (attacking s \<and> SDL_HasIntersection (attackRect (player s)) (getRect ?z) \<and>
      health z - MELEE_DAMAGE \<le> 0)"
    unfolding b meleeBlock_result using hz by (auto simp add: x)
qed

lemma zombieLoop_result:
  assumes "player s = (player s0)\<lparr>health := x\<rparr>" and "attacking s = attacking s0"
  shows "map (\<lambda>zd. (health (fst zd), snd zd)) (fst (zombieLoop inp r i zs s)) =
     map (\<lambda>z. if attacking s0 \<and>
                  SDL_HasIntersection (attackRect (player s0))
                    (getRect (Zombie_update platforms (player s0) z))
               then (health z - MELEE_DAMAGE, health z - MELEE_DAMAGE \<le> 0)
               else (health z, False)) zs"
  using assms
proof (induction zs arbitrary: i s x)
  case Nil
  show ?case by simp
next
  case (Cons z zs)
  obtain y where y: "player (snd (zombieBody inp r i z s)) = (player s)\<lparr>health := y\<rparr>"
    using zombieBody_player_place by blast
  have p: "player (snd (zombieBody inp r i z s)) = (player s0)\<lparr>health := y\<rparr>"
    using y Cons.prems(1) by simp
  have a: "attacking (snd (zombieBody inp r i z s)) = attacking s0"
    using Cons.prems(2) by simp
  note ih = Cons.IH [OF p a]
  show ?case
    using ih Cons.prems by (auto simp add: Let_def zombieBody_result)
qed

subsection \<open>Evaluating the constructors\<close>

lemma new_Zombie_eval:
  "new_Zombie x y w0 h0 t =
     \<lparr>pos_x = x, pos_y = y, vel_x = 0, vel_y = 0, col_x = real_of_int w0,
      col_y = real_of_int h0, w = w0, h = h0, onGround = False, gravity = True,
      friction = True, health = (if t = ATTACK then 50 else 100), ztype = t,
      speed = (if t = ATTACK then 2 else 1 / 2), damage = (if t = ATTACK then 5 else 10),
      lastDamageTime = 0\<rparr>"
  by (simp add: new_Zombie_def new_PhysicsEntity_def PhysicsEntity.defs Zombie.defs)

lemma tankZombie_rect:
  "getRect (Zombie_update platforms (player standingRun) tankZombie) =
     \<lparr>rx = 119, ry = 512, rw = 32, rh = 32\<rparr>"
proof -
  have ti: "to_int (239 / 2) = 119" "to_int (1089 / 2) = 544" "to_int (301 / 2) = 150"
    "to_int (241 / 2) = 120" "to_int (1025 / 2) = 512" "to_int (1087 / 2) = 543"
    "to_int (303 / 2) = 151"
    by (simp_all add: to_int_def)
  have p: "pos_x (player standingRun) = 96"
    by (simp add: standingRun_def new_PhysicsEntity_def)
  show ?thesis
    unfolding Zombie_update_def tankZombie_def new_Zombie_eval getRect_def
    apply (simp add: p Let_def GRAVITY_def)
    apply (simp add: resolveCollisions_def groundBlock_def grounded_def platforms_def
        platformRect_def TILE_SIZE_def ti)
    apply (simp add: ceilingBlock_def ceilingCol_def platformRect_def TILE_SIZE_def
        leftBlock_def leftCol_def rightBlock_def rightCol_def ti)
    apply (simp add: clampZombie_def SCREEN_WIDTH_def SCREEN_HEIGHT_def ti)
    done
qed

lemma meleeRun_fields:
  "attacking meleeRun" "lastAttackTime meleeRun = 1" "player meleeRun = player standingRun"
  "zombies meleeRun = [tankZombie]" "gameState meleeRun = PLAYING"
  by (simp_all add: meleeRun_def handleEvent_def standingRun_def initRun_def ATTACK_COOLDOWN_def)

subsection \<open>The food loop\<close>

lemma Food_more: "spawnTime f = spawnTime f'"
  if "PhysicsEntity.more f = PhysicsEntity.more f'" for f f' :: Food
  using that by (cases f, cases f') simp

lemma clampFood_spawnTime [simp]: "spawnTime (clampFood f) = spawnTime f"
  by (simp add: clampFood_def Let_def)

lemma Food_update_spawnTime [simp]: "spawnTime (Food_update t f) = spawnTime f"
proof -
  have m: "PhysicsEntity.more (resolveCollisions t f4) = PhysicsEntity.more f4" for f4 :: Food
    by simp
  have k: "spawnTime (resolveCollisions t f4) = spawnTime f4" for f4 :: Food
    using Food_more [OF m [of f4]] .
  show ?thesis
    by (simp add: Food_update_def Let_def k)
qed



subsection \<open>Evaluating the pickup constructor\<close>



subsection \<open>The zombie pass\<close>

lemma contactDamage_timer:
  "lastDamageTime (fst (contactDamage now pr zr (z, p))) =
     (if SDL_HasIntersection pr zr \<and> 1 \<le> now - lastDamageTime z then now else lastDamageTime z)"
  by (simp add: contactDamage_eq)

lemma meleeBlock_timer:
  "lastDamageTime (fst (fst (meleeBlock inp i zr z s))) = lastDamageTime z"
  by (simp add: meleeBlock_result)

lemma zombieBody_timer:
  "lastDamageTime (fst (fst (zombieBody inp r i z s))) =
     (if SDL_HasIntersection r (getRect (Zombie_update platforms (player s) z)) \<and>
         1 \<le> currentTime inp - lastDamageTime z
      then currentTime inp else lastDamageTime z)"
proof -
  let ?z = "Zombie_update platforms (player s) z"
  let ?zp = "contactDamage (currentTime inp) r (getRect ?z) (?z, player s)"
  have b: "zombieBody inp r i z s = meleeBlock inp i (getRect ?z) (fst ?zp) (s\<lparr>player := snd ?zp\<rparr>)"
    by (simp add: zombieBody_def Let_def contactDamage_twice)
  show ?thesis
    unfolding b meleeBlock_timer contactDamage_timer by simp
qed

lemma zombieBody_player_health:
  "player (snd (zombieBody inp r i z s)) =
     (player s)\<lparr>health :=
        (if SDL_HasIntersection r (getRect (Zombie_update platforms (player s) z)) \<and>
            1 \<le> currentTime inp - lastDamageTime z
         then max 0 (health (player s) - damage z) else health (player s))\<rparr>"
  by (simp add: zombieBody_player contactDamage_eq)

lemma zombieLoop_timers:
  assumes "player s = (player s0)\<lparr>health := x\<rparr>"
  shows "map (\<lambda>zd. lastDamageTime (fst zd)) (fst (zombieLoop inp r i zs s)) =
     map (\<lambda>z. if SDL_HasIntersection r (getRect (Zombie_update platforms (player s0) z)) \<and>
                  1 \<le> currentTime inp - lastDamageTime z
               then currentTime inp else lastDamageTime z) zs"
  using assms
proof (induction zs arbitrary: i s x)
  case Nil
  show ?case by simp
next
  case (Cons z zs)
  obtain y where y: "player (snd (zombieBody inp r i z s)) = (player s)\<lparr>health := y\<rparr>"
    using zombieBody_player_place by blast
  have p: "player (snd (zombieBody inp r i z s)) = (player s0)\<lparr>health := y\<rparr>"
    using y Cons.prems(1) by simp
  note ih = Cons.IH [OF p]
  show ?case
    using ih Cons.prems by (simp add: Let_def zombieBody_timer)
qed

lemma zombieLoop_player:
  assumes "player s = (player s0)\<lparr>health := x\<rparr>"
  shows "player (snd (zombieLoop inp r i zs s)) =
     (player s0)\<lparr>health :=
        foldl (\<lambda>hp z. if SDL_HasIntersection r (getRect (Zombie_update platforms (player s0) z)) \<and>
                          1 \<le> currentTime inp - lastDamageTime z
                       then max 0 (hp - damage z) else hp) x zs\<rparr>"
  using assms
proof (induction zs arbitrary: i s x)
  case Nil
  then show ?case by simp
next
  case (Cons z zs)
  let ?y = "if SDL_HasIntersection r (getRect (Zombie_update platforms (player s0) z)) \<and>
            1 \<le> currentTime inp - lastDamageTime z
         then max 0 (x - damage z) else x"
  have p: "player (snd (zombieBody inp r i z s)) = (player s0)\<lparr>health := ?y\<rparr>"
    unfolding zombieBody_player_health using Cons.prems by simp
  note ih = Cons.IH [OF p]
  show ?case
    using ih by (simp add: Let_def)
qed

lemma map_filter_transfer:
  "map (\<lambda>x. (f x, p x)) xs = map (\<lambda>y. (g y, q y)) ys \<Longrightarrow>
   map f (filter (\<lambda>x. \<not> p x) xs) = map g (filter (\<lambda>y. \<not> q y) ys)"
proof (induction xs arbitrary: ys)
  case Nil
  then show ?case by simp
next
  case (Cons x xs)
  then obtain y ys' where ys: "ys = y # ys'" by (cases ys) auto
  with Cons.prems have h: "f x = g y" "p x = q y"
    and t: "map (\<lambda>x. (f x, p x)) xs = map (\<lambda>y. (g y, q y)) ys'" by simp_all
  from Cons.IH [OF t] h show ?case by (simp add: ys)
qed

lemma zombiePass_zombies:
  "map (\<lambda>z. (health z, lastDamageTime z)) (zombies (zombiePass inp r s)) =
     map (\<lambda>z. (if attacking s \<and>
                   SDL_HasIntersection (attackRect (player s))
                     (getRect (Zombie_update platforms (player s) z))
                then health z - MELEE_DAMAGE else health z,
                if SDL_HasIntersection r (getRect (Zombie_update platforms (player s) z)) \<and>
                   1 \<le> currentTime inp - lastDamageTime z
                then currentTime inp else lastDamageTime z))
       (filter (\<lambda>z. \<not> (attacking s \<and>
                   SDL_HasIntersection (attackRect (player s))
                     (getRect (Zombie_update platforms (player s) z)) \<and>
                   health z - MELEE_DAMAGE \<le> 0)) (zombies s))"
proof -
  let ?L = "fst (zombieLoop inp r 0 (zombies s) s)"
  have p: "player s = (player s)\<lparr>health := health (player s)\<rparr>" by simp
  have a: "map (\<lambda>zd. (health (fst zd), snd zd)) ?L =
     map (\<lambda>z. if attacking s \<and>
                  SDL_HasIntersection (attackRect (player s))
                    (getRect (Zombie_update platforms (player s) z))
               then (health z - MELEE_DAMAGE, health z - MELEE_DAMAGE \<le> 0)
               else (health z, False)) (zombies s)"
    by (rule zombieLoop_result [OF p refl])
  have b: "map (\<lambda>zd. lastDamageTime (fst zd)) ?L =
     map (\<lambda>z. if SDL_HasIntersection r (getRect (Zombie_update platforms (player s) z)) \<and>
                  1 \<le> currentTime inp - lastDamageTime z
               then currentTime inp else lastDamageTime z) (zombies s)"
    by (rule zombieLoop_timers [OF p])
  have len: "length ?L = length (zombies s)" by simp
  have c: "map (\<lambda>zd. ((health (fst zd), lastDamageTime (fst zd)), snd zd)) ?L =
     map (\<lambda>z. ((if attacking s \<and>
                   SDL_HasIntersection (attackRect (player s))
                     (getRect (Zombie_update platforms (player s) z))
                then health z - MELEE_DAMAGE else health z,
                if SDL_HasIntersection r (getRect (Zombie_update platforms (player s) z)) \<and>
                   1 \<le> currentTime inp - lastDamageTime z
                then currentTime inp else lastDamageTime z),
               attacking s \<and>
                   SDL_HasIntersection (attackRect (player s))
                     (getRect (Zombie_update platforms (player s) z)) \<and>
                   health z - MELEE_DAMAGE \<le> 0)) (zombies s)"
  proof (rule nth_equalityI)
    show "length (map (\<lambda>zd. ((health (fst zd), lastDamageTime (fst zd)), snd zd)) ?L) =
      length (map (\<lambda>z. ((if attacking s \<and>
                   SDL_HasIntersection (attackRect (player s))
                     (getRect (Zombie_update platforms (player s) z))
                then health z - MELEE_DAMAGE else health z,
                if SDL_HasIntersection r (getRect (Zombie_update platforms (player s) z)) \<and>
                   1 \<le> currentTime inp - lastDamageTime z
                then currentTime inp else lastDamageTime z),
               attacking s \<and>
                   SDL_HasIntersection (attackRect (player s))
                     (getRect (Zombie_update platforms (player s) z)) \<and>
                   health z - MELEE_DAMAGE \<le> 0)) (zombies s))"
      using len by simp
  next
    fix k assume "k < length (map (\<lambda>zd. ((health (fst zd), lastDamageTime (fst zd)), snd zd)) ?L)"
    then have k: "k < length ?L" "k < length (zombies s)" using len by simp_all
    from arg_cong [OF a, of "\<lambda>l. l ! k"] k
    have a': "(health (fst (?L ! k)), snd (?L ! k)) =
       (if attacking s \<and>
                  SDL_HasIntersection (attackRect (player s))
                    (getRect (Zombie_update platforms (player s) (zombies s ! k)))
               then (health (zombies s ! k) - MELEE_DAMAGE, health (zombies s ! k) - MELEE_DAMAGE \<le> 0)
               else (health (zombies s ! k), False))" by simp
    from arg_cong [OF b, of "\<lambda>l. l ! k"] k
    have b': "lastDamageTime (fst (?L ! k)) =
       (if SDL_HasIntersection r (getRect (Zombie_update platforms (player s) (zombies s ! k))) \<and>
                  1 \<le> currentTime inp - lastDamageTime (zombies s ! k)
               then currentTime inp else lastDamageTime (zombies s ! k))" by simp
    show "map (\<lambda>zd. ((health (fst zd), lastDamageTime (fst zd)), snd zd)) ?L ! k =
      map (\<lambda>z. ((if attacking s \<and>
                   SDL_HasIntersection (attackRect (player s))
                     (getRect (Zombie_update platforms (player s) z))
                then health z - MELEE_DAMAGE else health z,
                if SDL_HasIntersection r (getRect (Zombie_update platforms (player s) z)) \<and>
                   1 \<le> currentTime inp - lastDamageTime z
                then currentTime inp else lastDamageTime z),
               attacking s \<and>
                   SDL_HasIntersection (attackRect (player s))
                     (getRect (Zombie_update platforms (player s) z)) \<and>
                   health z - MELEE_DAMAGE \<le> 0)) (zombies s) ! k"
      using k a' b' by (auto split: if_splits)
  qed
  have "map (\<lambda>zd. (health (fst zd), lastDamageTime (fst zd))) (filter (\<lambda>zd. \<not> snd zd) ?L) =
     map (\<lambda>z. (if attacking s \<and>
                   SDL_HasIntersection (attackRect (player s))
                     (getRect (Zombie_update platforms (player s) z))
                then health z - MELEE_DAMAGE else health z,
                if SDL_HasIntersection r (getRect (Zombie_update platforms (player s) z)) \<and>
                   1 \<le> currentTime inp - lastDamageTime z
                then currentTime inp else lastDamageTime z))
       (filter (\<lambda>z. \<not> (attacking s \<and>
                   SDL_HasIntersection (attackRect (player s))
                     (getRect (Zombie_update platforms (player s) z)) \<and>
                   health z - MELEE_DAMAGE \<le> 0)) (zombies s))"
    by (rule map_filter_transfer [OF c])
  then show ?thesis
    by (simp add: zombiePass_def Let_def comp_def)
qed

lemma zombiePass_player:
  "player (zombiePass inp r s) =
     (player s)\<lparr>health :=
        foldl (\<lambda>hp z. if SDL_HasIntersection r (getRect (Zombie_update platforms (player s) z)) \<and>
                          1 \<le> currentTime inp - lastDamageTime z
                       then max 0 (hp - damage z) else hp) (health (player s)) (zombies s)\<rparr>"
proof -
  have p: "player s = (player s)\<lparr>health := health (player s)\<rparr>" by simp
  show ?thesis
    using zombieLoop_player [OF p, of inp r 0 "zombies s"]
    by (simp add: zombiePass_def Let_def)
qed

subsection \<open>The contact scenario, tick by tick\<close>

lemma standing_update:
  "update platforms False ((player standingRun)\<lparr>health := hp\<rparr>) = (player standingRun)\<lparr>health := hp\<rparr>"
proof -
  have ti: "to_int (993 / 2) = 496" "to_int (1089 / 2) = 544"
    by (simp_all add: to_int_def)
  show ?thesis
    unfolding update_def standingRun_def
    apply (simp add: integrate_def new_PhysicsEntity_def GRAVITY_def FRICTION_def)
    apply (simp add: resolveCollisions_def groundBlock_def grounded_def platforms_def
        platformRect_def TILE_SIZE_def ti)
    apply (simp add: ceilingBlock_def ceilingCol_def platformRect_def TILE_SIZE_def
        leftBlock_def leftCol_def rightBlock_def rightCol_def ti)
    apply (simp add: clampToScreen_def SCREEN_WIDTH_def SCREEN_HEIGHT_def)
    done
qed

lemma fast_update:
  "Zombie_update platforms (player standingRun)
     (fastZombie\<lparr>onGround := True, lastDamageTime := L\<rparr>) =
   fastZombie\<lparr>onGround := True, lastDamageTime := L\<rparr>"
proof -
  have ti: "to_int (1025 / 2) = 512" "to_int (1089 / 2) = 544"
    by (simp_all add: to_int_def)
  have p: "pos_x (player standingRun) = 96"
    by (simp add: standingRun_def new_PhysicsEntity_def)
  show ?thesis
    unfolding Zombie_update_def fastZombie_def new_Zombie_eval
    apply (simp add: p Let_def GRAVITY_def FRICTION_def)
    apply (simp add: resolveCollisions_def groundBlock_def grounded_def platforms_def
        platformRect_def TILE_SIZE_def ti)
    apply (simp add: ceilingBlock_def ceilingCol_def platformRect_def TILE_SIZE_def
        leftBlock_def leftCol_def rightBlock_def rightCol_def ti)
    apply (simp add: clampZombie_def SCREEN_WIDTH_def SCREEN_HEIGHT_def ti)
    done
qed

lemma contact_rects:
  "SDL_HasIntersection (getRect ((player standingRun)\<lparr>health := hp\<rparr>))
     (getRect (fastZombie\<lparr>onGround := True, lastDamageTime := L\<rparr>))"
  by (simp add: SDL_HasIntersection_def getRect_def standingRun_def new_PhysicsEntity_def
      fastZombie_def new_Zombie_eval)

lemma tick_inContact:
  assumes c: "inContact hp L s"
    and idle: "\<not> isMovingLeft inp" "\<not> isMovingRight inp"
    and pos: "0 < (if 1 \<le> currentTime inp - L then hp - 5 else hp)"
  shows "\<exists>s'. tick inp s = Some s' \<and>
     inContact (if 1 \<le> currentTime inp - L then hp - 5 else hp)
       (if 1 \<le> currentTime inp - L then currentTime inp else L) s'"
proof -
  let ?P = "(player standingRun)\<lparr>health := hp\<rparr>"
  let ?Z = "fastZombie\<lparr>onGround := True, lastDamageTime := L\<rparr>"
  let ?hp = "if 1 \<le> currentTime inp - L then hp - 5 else hp"
  let ?L = "if 1 \<le> currentTime inp - L then currentTime inp else L"
  let ?e = "s\<lparr>player := ?P, weather := Weather_update (currentTime inp) (weather s)\<rparr>"
  from c have f: "gameState s = PLAYING" "\<not> attacking s" "foods s = []" "zombiesToSpawn s = 0"
    "waveZombiesRemaining s = 1" "player s = ?P" "zombies s = [?Z]" "running s"
    by (simp_all add: inContact_def)
  have s1: "spawnStep inp (playerStep inp s) = ?e"
    using f idle by (simp add: spawnStep_def playerStep_def Let_def standing_update)
  have d5: "damage ?Z = 5" by (simp add: fastZombie_def new_Zombie_eval)
  have hp: "1 \<le> currentTime inp - L \<Longrightarrow> max 0 (hp - 5) = hp - 5"
    using pos by (simp split: if_splits)
  have cd: "contactDamage (currentTime inp) (getRect ?P) (getRect ?Z) (?Z, ?P) =
      (?Z\<lparr>lastDamageTime := ?L\<rparr>, ?P\<lparr>health := ?hp\<rparr>)"
    by (simp add: contactDamage_eq contact_rects d5 hp)
  have zb: "zombieBody inp (getRect ?P) 0 ?Z ?e =
      ((?Z\<lparr>lastDamageTime := ?L\<rparr>, False), ?e\<lparr>player := ?P\<lparr>health := ?hp\<rparr>\<rparr>)"
  proof -
    have "zombieBody inp (getRect ?P) 0 ?Z ?e =
        meleeBlock inp 0 (getRect ?Z)
          (fst (contactDamage (currentTime inp) (getRect ?P) (getRect ?Z) (?Z, ?P)))
          (?e\<lparr>player := snd (contactDamage (currentTime inp) (getRect ?P) (getRect ?Z) (?Z, ?P))\<rparr>)"
      unfolding zombieBody_def Let_def contactDamage_twice
      by (simp add: fast_update)
    also have "\<dots> = ((?Z\<lparr>lastDamageTime := ?L\<rparr>, False), ?e\<lparr>player := ?P\<lparr>health := ?hp\<rparr>\<rparr>)"
      unfolding cd by (simp add: meleeBlock_def f)
    finally show ?thesis .
  qed
  let ?m = "?e\<lparr>player := ?P\<lparr>health := ?hp\<rparr>, zombies := [?Z\<lparr>lastDamageTime := ?L\<rparr>],
      attacking := False\<rparr>"
  have m: "zombiePass inp (getRect ?P) ?e = ?m"
  proof -
    have z1: "zombies ?e = [?Z]" by (simp add: f)
    show ?thesis
      unfolding zombiePass_def Let_def z1
      by (simp add: zb Let_def)
  qed
  have pe: "player ?e = ?P" by simp
  have sim: "simulate inp s = ?m"
    unfolding simulate_def Let_def s1 pe m
    by (simp add: foodPass_def f)
  have wc: "waveCheck ?m = Some ?m"
    by (simp add: waveCheck_def f)
  have go: "gameOverCheck ?m = ?m"
    using pos
    by (simp add: gameOverCheck_def standingRun_def new_PhysicsEntity_def SCREEN_HEIGHT_def)
  have t: "tick inp s = Some ?m"
    unfolding tick_def sim wc by (simp only: f if_True option.map go simp_thms)
  have "inContact ?hp ?L ?m"
    by (simp add: inContact_def f)
  with t show ?thesis by blast
qed

lemma runTicks_step:
  "inContact hp L s \<Longrightarrow> tick inp s = Some s1 \<Longrightarrow> runTicks (inp # inps) s = runTicks inps s1"
  by (simp add: inContact_def)

lemma tick_hit:
  assumes "inContact hp L s" "still inp" "1 \<le> currentTime inp - L" "5 < hp"
  shows "\<exists>s'. tick inp s = Some s' \<and> inContact (hp - 5) (currentTime inp) s'"
  using tick_inContact [of hp L s inp] assms by (simp add: still_def)

lemma tick_miss:
  assumes "inContact hp L s" "still inp" "\<not> 1 \<le> currentTime inp - L" "0 < hp"
  shows "\<exists>s'. tick inp s = Some s' \<and> inContact hp L s'"
  using tick_inContact [of hp L s inp] assms by (simp add: still_def)

lemma run_after_hit:
  assumes "inContact hp L s"
    and "\<forall>inp\<in>set inps. still inp \<and> currentTime inp < b"
    and "b \<le> L + 1 + real k" and "5 * int k < hp"
  shows "\<exists>s' hp' L'. runTicks inps s = Some s' \<and> inContact hp' L' s' \<and>
     hp - 5 * int k \<le> hp' \<and> hp' \<le> hp"
  using assms
proof (induction inps arbitrary: hp L s k)
  case Nil
  then show ?case by fastforce
next
  case (Cons inp inps)
  have st: "still inp" and lt: "currentTime inp < b"
    and rest: "\<forall>x\<in>set inps. still x \<and> currentTime x < b"
    using Cons.prems(2) by simp_all
  show ?case
  proof (cases "1 \<le> currentTime inp - L")
    case True
    with lt Cons.prems(3) have "0 < real k" by linarith
    then obtain j where j: "k = Suc j" by (cases k) simp_all
    have hp5: "5 < hp" using Cons.prems(4) j by simp
    from tick_hit [OF Cons.prems(1) st True hp5]
    obtain s1 where s1: "tick inp s = Some s1" "inContact (hp - 5) (currentTime inp) s1"
      by blast
    have b1: "b \<le> currentTime inp + 1 + real j" using True Cons.prems(3) j by simp
    have b2: "5 * int j < hp - 5" using Cons.prems(4) j by simp
    from Cons.IH [OF s1(2) rest b1 b2]
    obtain s' hp' L' where r: "runTicks inps s1 = Some s'" "inContact hp' L' s'"
      "hp - 5 - 5 * int j \<le> hp'" "hp' \<le> hp - 5" by blast
    have "runTicks (inp # inps) s = Some s'"
      using runTicks_step [OF Cons.prems(1) s1(1)] r(1) by simp
    moreover have "hp - 5 * int k \<le> hp'" using r(3) j by simp
    moreover have "hp' \<le> hp" using r(4) by simp
    ultimately show ?thesis using r(2) by blast
  next
    case False
    have hp0: "0 < hp" using Cons.prems(4) by (cases k) simp_all
    from tick_miss [OF Cons.prems(1) st False hp0]
    obtain s1 where s1: "tick inp s = Some s1" "inContact hp L s1" by blast
    from Cons.IH [OF s1(2) rest Cons.prems(3) Cons.prems(4)]
    obtain s' hp' L' where r: "runTicks inps s1 = Some s'" "inContact hp' L' s'"
      "hp - 5 * int k \<le> hp'" "hp' \<le> hp" by blast
    have "runTicks (inp # inps) s = Some s'"
      using runTicks_step [OF Cons.prems(1) s1(1)] r(1) by simp
    then show ?thesis using r(2,3,4) by blast
  qed
qed

lemma run_window:
  assumes "inContact hp L s"
    and "\<forall>inp\<in>set inps. still inp \<and> t0 \<le> currentTime inp \<and> currentTime inp < b"
    and "b \<le> t0 + 1 + real k" and "5 * (int k + 1) < hp"
  shows "\<exists>s' hp' L'. runTicks inps s = Some s' \<and> inContact hp' L' s' \<and>
     hp - 5 * (int k + 1) \<le> hp' \<and> hp' \<le> hp"
  using assms
proof (induction inps arbitrary: s)
  case Nil
  then show ?case by fastforce
next
  case (Cons inp inps)
  have st: "still inp" and ge: "t0 \<le> currentTime inp"
    and rest: "\<forall>x\<in>set inps. still x \<and> t0 \<le> currentTime x \<and> currentTime x < b"
    and rest2: "\<forall>x\<in>set inps. still x \<and> currentTime x < b"
    using Cons.prems(2) by simp_all
  show ?case
  proof (cases "1 \<le> currentTime inp - L")
    case True
    have hp5: "5 < hp" using Cons.prems(4) by simp
    from tick_hit [OF Cons.prems(1) st True hp5]
    obtain s1 where s1: "tick inp s = Some s1" "inContact (hp - 5) (currentTime inp) s1"
      by blast
    have b1: "b \<le> currentTime inp + 1 + real k" using ge Cons.prems(3) by simp
    have b2: "5 * int k < hp - 5" using Cons.prems(4) by simp
    from run_after_hit [OF s1(2) rest2 b1 b2]
    obtain s' hp' L' where r: "runTicks inps s1 = Some s'" "inContact hp' L' s'"
      "hp - 5 - 5 * int k \<le> hp'" "hp' \<le> hp - 5" by blast
    have "runTicks (inp # inps) s = Some s'"
      using runTicks_step [OF Cons.prems(1) s1(1)] r(1) by simp
    moreover have "hp - 5 * (int k + 1) \<le> hp'" using r(3) by simp
    moreover have "hp' \<le> hp" using r(4) by simp
    ultimately show ?thesis using r(2) by blast
  next
    case False
    have hp0: "0 < hp" using Cons.prems(4) by simp
    from tick_miss [OF Cons.prems(1) st False hp0]
    obtain s1 where s1: "tick inp s = Some s1" "inContact hp L s1" by blast
    from Cons.IH [OF s1(2) rest Cons.prems(3) Cons.prems(4)]
    obtain s' hp' L' where r: "runTicks inps s1 = Some s'" "inContact hp' L' s'"
      "hp - 5 * (int k + 1) \<le> hp'" "hp' \<le> hp" by blast
    have "runTicks (inp # inps) s = Some s'"
      using runTicks_step [OF Cons.prems(1) s1(1)] r(1) by simp
    then show ?thesis using r(2,3,4) by blast
  qed
qed

lemma run_forced_hit:
  assumes "inContact hp L s" and "\<forall>inp\<in>set inps. still inp"
    and "sorted (map currentTime inps)" and "u \<in> set inps"
    and "1 \<le> currentTime u - L" and "5 < hp"
  shows "\<exists>t s2 inps2. runTicks inps s = runTicks inps2 s2 \<and> inContact (hp - 5) t s2 \<and>
     1 \<le> t - L \<and> t \<le> currentTime u \<and> sorted (map currentTime inps2) \<and>
     set inps2 \<subseteq> set inps \<and> (\<forall>x\<in>set inps. t < currentTime x \<longrightarrow> x \<in> set inps2)"
  using assms
proof (induction inps arbitrary: s)
  case Nil
  then show ?case by simp
next
  case (Cons a as)
  have sa: "sorted (map currentTime as)"
    and le: "\<forall>x\<in>set as. currentTime a \<le> currentTime x"
    using Cons.prems(3) by simp_all
  have st: "still a" and rest: "\<forall>x\<in>set as. still x" using Cons.prems(2) by simp_all
  show ?case
  proof (cases "1 \<le> currentTime a - L")
    case True
    from tick_hit [OF Cons.prems(1) st True Cons.prems(6)]
    obtain s1 where s1: "tick a s = Some s1" "inContact (hp - 5) (currentTime a) s1"
      by blast
    have "runTicks (a # as) s = runTicks as s1"
      by (rule runTicks_step [OF Cons.prems(1) s1(1)])
    moreover have "currentTime a \<le> currentTime u" using Cons.prems(4) le by auto
    moreover have "\<forall>x\<in>set (a # as). currentTime a < currentTime x \<longrightarrow> x \<in> set as" by auto
    moreover have "set as \<subseteq> set (a # as)" by auto
    ultimately show ?thesis using s1(2) sa True by blast
  next
    case False
    have hp0: "0 < hp" using Cons.prems(6) by simp
    from tick_miss [OF Cons.prems(1) st False hp0]
    obtain s1 where s1: "tick a s = Some s1" "inContact hp L s1" by blast
    from False Cons.prems(5) have "u \<noteq> a" by auto
    then have "u \<in> set as" using Cons.prems(4) by simp
    from Cons.IH [OF s1(2) rest sa this Cons.prems(5) Cons.prems(6)]
    obtain t s2 inps2 where t: "runTicks as s1 = runTicks inps2 s2"
      "inContact (hp - 5) t s2" "1 \<le> t - L" "t \<le> currentTime u"
      "sorted (map currentTime inps2)" "set inps2 \<subseteq> set as"
      "\<forall>x\<in>set as. t < currentTime x \<longrightarrow> x \<in> set inps2"
      by blast
    have "currentTime a < t" using False t(3) by simp
    then have "\<forall>x\<in>set (a # as). t < currentTime x \<longrightarrow> x \<in> set inps2" using t(7) by auto
    moreover have "set inps2 \<subseteq> set (a # as)" using t(6) by auto
    moreover have "runTicks (a # as) s = runTicks inps2 s2"
      using runTicks_step [OF Cons.prems(1) s1(1)] t(1) by simp
    ultimately show ?thesis using t(2,3,4,5) by blast
  qed
qed

lemma run_three_hits:
  assumes c: "inContact 100 L s" and st0: "still inp0"
    and win: "\<forall>x\<in>set inps. still x \<and> currentTime x < currentTime inp0 + 3"
    and srt: "sorted (map currentTime (inp0 # inps))"
    and rdy: "1 \<le> currentTime inp0 - L"
    and u: "u \<in> set inps" and v: "v \<in> set inps"
    and tu: "currentTime inp0 + 1 \<le> currentTime u"
    and uv: "currentTime u + 1 \<le> currentTime v"
  shows "\<exists>s' L'. runTicks (inp0 # inps) s = Some s' \<and> inContact 85 L' s'"
proof -
  from tick_hit [OF c st0 rdy]
  obtain s1 where s1: "tick inp0 s = Some s1" "inContact 95 (currentTime inp0) s1"
    by auto
  have e1: "runTicks (inp0 # inps) s = runTicks inps s1"
    by (rule runTicks_step [OF c s1(1)])
  have sts: "sorted (map currentTime inps)" using srt by simp
  have stl: "\<forall>x\<in>set inps. still x" using win by simp
  have r1: "1 \<le> currentTime u - currentTime inp0" using tu by simp
  from run_forced_hit [OF s1(2) stl sts u r1]
  obtain t2 s2 inps2 where t2: "runTicks inps s1 = runTicks inps2 s2"
    "inContact 90 t2 s2" "1 \<le> t2 - currentTime inp0" "t2 \<le> currentTime u"
    "sorted (map currentTime inps2)" "set inps2 \<subseteq> set inps"
    "\<forall>x\<in>set inps. t2 < currentTime x \<longrightarrow> x \<in> set inps2"
    by auto
  have v2: "v \<in> set inps2" using t2(4,7) v uv by auto
  have r2: "1 \<le> currentTime v - t2" using t2(4) uv by simp
  have stl2: "\<forall>x\<in>set inps2. still x" using stl t2(6) by auto
  from run_forced_hit [OF t2(2) stl2 t2(5) v2 r2]
  obtain t3 s3 inps3 where t3: "runTicks inps2 s2 = runTicks inps3 s3"
    "inContact 85 t3 s3" "1 \<le> t3 - t2" "set inps3 \<subseteq> set inps2"
    by auto
  have w3: "\<forall>x\<in>set inps3. still x \<and> currentTime x < currentTime inp0 + 3"
    using win t2(6) t3(4) by auto
  have b3: "currentTime inp0 + 3 \<le> t3 + 1 + real (0 :: nat)" using t2(3) t3(3) by simp
  from run_after_hit [OF t3(2) w3 b3]
  obtain s' hp' L' where r: "runTicks inps3 s3 = Some s'" "inContact hp' L' s'"
    "85 \<le> hp'" "hp' \<le> 85" by auto
  then have "hp' = 85" by simp
  with r e1 t2(1) t3(1) show ?thesis by auto
qed

lemma contactRun_inContact: "inContact 100 0 contactRun"
  by (simp add: inContact_def contactRun_def standingRun_def initRun_def fastZombie_def
      new_Zombie_eval new_PhysicsEntity_def)

lemma tickAt_fields:
  "still (tickAt t)" "currentTime (tickAt t) = t"
  by (simp_all add: still_def tickAt_def idleInput_def)

subsection \<open>The phases of a tick\<close>

lemma waveCheck_keeps:
  assumes "waveCheck s = Some s'"
  shows "foods s' = foods s" and "player s' = player s" and "attacking s' = attacking s"
  using assms
  by (auto simp add: waveCheck_def recordHighScore_def split: if_splits option.splits)

lemma gameOverCheck_keeps [simp]:
  "foods (gameOverCheck s) = foods s" "player (gameOverCheck s) = player s"
  "attacking (gameOverCheck s) = attacking s"
  by (simp_all add: gameOverCheck_def recordHighScore_def)

lemma tick_parts:
  assumes "gameState s = PLAYING" and "tick inp s = Some s'"
  shows "zombies s' = zombies (simulate inp s)" and "foods s' = foods (simulate inp s)"
    and "player s' = player (simulate inp s)" and "\<not> attacking s'"
proof -
  from assms obtain m where m: "waveCheck (simulate inp s) = Some m" "s' = gameOverCheck m"
    by (auto simp add: tick_def)
  show "zombies s' = zombies (simulate inp s)" using m waveCheck_Some(1) [OF m(1)] by simp
  show "foods s' = foods (simulate inp s)" using m waveCheck_keeps(1) [OF m(1)] by simp
  show "player s' = player (simulate inp s)" using m waveCheck_keeps(2) [OF m(1)] by simp
  show "\<not> attacking s'" using m waveCheck_keeps(3) [OF m(1)] by simp
qed

lemma tick_returns:
  assumes "gameState s = PLAYING" and "1 \<le> wave s" and "wave s \<le> TOTAL_WAVES"
  shows "\<exists>s'. tick inp s = Some s'"
proof -
  have "1 \<le> wave (simulate inp s)" "wave (simulate inp s) \<le> TOTAL_WAVES"
    using assms by simp_all
  from waveCheck_cases [OF this] obtain m where "waveCheck (simulate inp s) = Some m"
    by (auto split: if_splits)
  then show ?thesis using assms(1) by (simp add: tick_def)
qed

lemma spawnStep_keeps [simp]:
  "player (spawnStep inp s) = player s" "foods (spawnStep inp s) = foods s"
  "attacking (spawnStep inp s) = attacking s"
  by (simp_all add: spawnStep_def)

lemma playerStep_keeps [simp]:
  "foods (playerStep inp s) = foods s" "attacking (playerStep inp s) = attacking s"
  "zombies (playerStep inp s) = zombies s"
  by (simp_all add: playerStep_def Let_def)

lemma simulate_phases:
  "simulate inp s =
     foodPass inp (getRect (player (playerStep inp s)))
       (zombiePass inp (getRect (player (playerStep inp s))) (spawnStep inp (playerStep inp s)))"
  by (simp add: simulate_def Let_def)

lemma meleeBlock_foods:
  "\<not> attacking s \<Longrightarrow> foods (snd (meleeBlock inp i zr z s)) = foods s"
  by (simp add: meleeBlock_def)

lemma zombieBody_foods:
  "\<not> attacking s \<Longrightarrow> foods (snd (zombieBody inp r i z s)) = foods s \<and>
     \<not> attacking (snd (zombieBody inp r i z s))"
  by (simp add: zombieBody_def Let_def meleeBlock_def)

lemma zombieLoop_foods:
  "\<not> attacking s \<Longrightarrow> foods (snd (zombieLoop inp r i zs s)) = foods s"
proof (induction zs arbitrary: i s)
  case Nil
  show ?case by simp
next
  case (Cons z zs)
  from zombieBody_foods [OF Cons.prems, of inp r i z]
  have a: "foods (snd (zombieBody inp r i z s)) = foods s"
    and b: "\<not> attacking (snd (zombieBody inp r i z s))" by simp_all
  from Cons.IH [OF b] a show ?case by (simp add: Let_def)
qed

lemma zombiePass_foods:
  "\<not> attacking s \<Longrightarrow> foods (zombiePass inp r s) = foods s"
  by (simp add: zombiePass_def Let_def zombieLoop_foods)


lemma foodPass_no_food: "foods s = [] \<Longrightarrow> player (foodPass inp r s) = player s"
  by (simp add: foodPass_def)

lemma zombieLoop_lastAttackTime [simp]:
  "lastAttackTime (snd (zombieLoop inp r i zs s)) = lastAttackTime s"
proof (induction zs arbitrary: i s)
  case Nil
  show ?case by simp
next
  case (Cons z zs)
  have "lastAttackTime (snd (zombieBody inp r i z s)) = lastAttackTime s"
    by (simp add: zombieBody_def Let_def meleeBlock_def)
  with Cons.IH show ?case by (simp add: Let_def)
qed

lemma simulate_lastAttackTime: "lastAttackTime (simulate inp s) = lastAttackTime s"
  by (simp add: simulate_def Let_def foodPass_def zombiePass_def spawnStep_def playerStep_def
      split: prod.splits)

lemma tick_lastAttackTime:
  assumes "tick inp s = Some s'"
  shows "lastAttackTime s' = lastAttackTime s"
proof (cases "gameState s = PLAYING")
  case True
  with assms obtain m where m: "waveCheck (simulate inp s) = Some m" "s' = gameOverCheck m"
    by (auto simp add: tick_def)
  from m(1) have "lastAttackTime m = lastAttackTime (simulate inp s)"
    by (auto simp add: waveCheck_def recordHighScore_def split: if_splits option.splits)
  then show ?thesis
    using m(2) by (simp add: gameOverCheck_def recordHighScore_def simulate_lastAttackTime)
next
  case False
  with assms show ?thesis by (simp add: tick_def)
qed

lemma standing_update0: "update platforms False (player standingRun) = player standingRun"
  using standing_update [of "health (player standingRun)"] by simp

lemma zombiePass_health:
  "map health (zombies (zombiePass inp r s)) =
     map (\<lambda>z. if attacking s \<and>
                  SDL_HasIntersection (attackRect (player s))
                    (getRect (Zombie_update platforms (player s) z))
               then health z - MELEE_DAMAGE else health z)
       (filter (\<lambda>z. \<not> (attacking s \<and>
                   SDL_HasIntersection (attackRect (player s))
                     (getRect (Zombie_update platforms (player s) z)) \<and>
                   health z - MELEE_DAMAGE \<le> 0)) (zombies s))"
  using arg_cong [OF zombiePass_zombies [of inp r s], of "map fst"]
  by (simp add: comp_def)

lemma zombiePass_timers:
  "map lastDamageTime (zombies (zombiePass inp r s)) =
     map (\<lambda>z. if SDL_HasIntersection r (getRect (Zombie_update platforms (player s) z)) \<and>
                  1 \<le> currentTime inp - lastDamageTime z
               then currentTime inp else lastDamageTime z)
       (filter (\<lambda>z. \<not> (attacking s \<and>
                   SDL_HasIntersection (attackRect (player s))
                     (getRect (Zombie_update platforms (player s) z)) \<and>
                   health z - MELEE_DAMAGE \<le> 0)) (zombies s))"
  using arg_cong [OF zombiePass_zombies [of inp r s], of "map snd"]
  by (simp add: comp_def)

lemma meleeRun_quota: "zombiesToSpawn meleeRun = 0" "wave meleeRun = 1"
  by (simp_all add: meleeRun_def handleEvent_def standingRun_def initRun_def ATTACK_COOLDOWN_def)



subsection \<open>C7: melee attack\<close>

text \<open>
  C7: the melee damage is 25 and the cooldown one half. An attack key press that
  arrives before the cooldown has elapsed changes nothing in the run (no hitbox is
  armed); while playing, a press after the cooldown arms the attack and records its
  time. No event changes the list of zombies. In the zombie loop of a tick every zombie
  is visited once: its health drops by 25 if the attack is armed and its box (after its
  own update) intersects the hitbox around the player, and stays as it was otherwise;
  it is marked for removal iff that leaves it at 0 or below. The zombies the pass leaves
  in the run are those not marked, in order, with exactly these healths, and they are
  the zombies of the run after the tick, which is the pass applied to the state after
  the player's update and the spawn block. The pass and the tick end with the attack
  disarmed, so one activation damages a zombie once.
\<close>

theorem C7_melee_attack:
  "MELEE_DAMAGE = 25 \<and> ATTACK_COOLDOWN = 1 / 2 \<and>
   (t - lastAttackTime s < ATTACK_COOLDOWN \<longrightarrow> handleEvent (KEYDOWN_f t) s = s) \<and>
   (gameState s = PLAYING \<and> t - lastAttackTime s \<ge> ATTACK_COOLDOWN \<longrightarrow>
      handleEvent (KEYDOWN_f t) s = s\<lparr>attacking := True, lastAttackTime := t\<rparr>) \<and>
   zombies (handleEvent e s) = zombies s \<and>
   map (\<lambda>zd. (health (fst zd), snd zd)) (fst (zombieLoop inp r i zs s)) =
     map (\<lambda>z. if attacking s \<and>
                  SDL_HasIntersection (attackRect (player s))
                    (getRect (Zombie_update platforms (player s) z))
               then (health z - 25, health z - 25 \<le> 0)
               else (health z, False)) zs \<and>
   map health (zombies (zombiePass inp r s)) =
     map (\<lambda>z. if attacking s \<and>
                  SDL_HasIntersection (attackRect (player s))
                    (getRect (Zombie_update platforms (player s) z))
               then health z - 25 else health z)
       (filter (\<lambda>z. \<not> (attacking s \<and>
                   SDL_HasIntersection (attackRect (player s))
                     (getRect (Zombie_update platforms (player s) z)) \<and>
                   health z - 25 \<le> 0)) (zombies s)) \<and>
   \<not> attacking (zombiePass inp r s) \<and> \<not> attacking (simulate inp s) \<and>
   (gameState s = PLAYING \<and> tick inp s = Some s' \<longrightarrow>
      zombies s' =
        zombies (zombiePass inp (getRect (player (playerStep inp s)))
                   (spawnStep inp (playerStep inp s))) \<and>
      \<not> attacking s')"
proof -
  have c: "t - lastAttackTime s < ATTACK_COOLDOWN \<longrightarrow> handleEvent (KEYDOWN_f t) s = s"
    by (simp add: handleEvent_def)
  have d: "gameState s = PLAYING \<and> t - lastAttackTime s \<ge> ATTACK_COOLDOWN \<longrightarrow>
      handleEvent (KEYDOWN_f t) s = s\<lparr>attacking := True, lastAttackTime := t\<rparr>"
    by (simp add: handleEvent_def)
  have p: "player s = (player s)\<lparr>health := health (player s)\<rparr>" by simp
  have l: "map (\<lambda>zd. (health (fst zd), snd zd)) (fst (zombieLoop inp r i zs s)) =
     map (\<lambda>z. if attacking s \<and>
                  SDL_HasIntersection (attackRect (player s))
                    (getRect (Zombie_update platforms (player s) z))
               then (health z - 25, health z - 25 \<le> 0)
               else (health z, False)) zs"
    using zombieLoop_result [OF p refl, of inp r i zs] by (simp add: MELEE_DAMAGE_def)
  have z: "map health (zombies (zombiePass inp r s)) =
     map (\<lambda>z. if attacking s \<and>
                  SDL_HasIntersection (attackRect (player s))
                    (getRect (Zombie_update platforms (player s) z))
               then health z - 25 else health z)
       (filter (\<lambda>z. \<not> (attacking s \<and>
                   SDL_HasIntersection (attackRect (player s))
                     (getRect (Zombie_update platforms (player s) z)) \<and>
                   health z - 25 \<le> 0)) (zombies s))"
    using zombiePass_health [of inp r s] by (simp add: MELEE_DAMAGE_def)
  have k: "zombies s' =
        zombies (zombiePass inp (getRect (player (playerStep inp s)))
                   (spawnStep inp (playerStep inp s))) \<and> \<not> attacking s'"
    if "gameState s = PLAYING \<and> tick inp s = Some s'"
  proof -
    from that have g: "gameState s = PLAYING" and t: "tick inp s = Some s'" by simp_all
    from tick_parts(1) [OF g t] tick_parts(4) [OF g t] show ?thesis
      by (simp add: simulate_phases)
  qed
  have e: "zombies (handleEvent e s) = zombies s"
    by (cases e) (simp_all add: handleEvent_def Let_def)
  have m: "MELEE_DAMAGE = 25" "ATTACK_COOLDOWN = 1 / 2"
    by (simp_all add: MELEE_DAMAGE_def ATTACK_COOLDOWN_def)
  have a: "\<not> attacking (zombiePass inp r s)" "\<not> attacking (simulate inp s)" by simp_all
  from m c d e l z a k show ?thesis by blast
qed

theorem C7_melee_attack_witness:
  "health tankZombie = 100 \<and> ztype tankZombie = TANK \<and> zombies meleeRun = [tankZombie] \<and>
   (case tick idleInput meleeRun of None \<Rightarrow> False
    | Some s' \<Rightarrow> map health (zombies s') = [75] \<and> \<not> attacking s' \<and>
        handleEvent (KEYDOWN_f (6 / 5)) s' = s' \<and>
        map health (zombies (handleEvent (KEYDOWN_f (6 / 5)) s')) = [75])"
proof -
  let ?s1 = "spawnStep idleInput (playerStep idleInput meleeRun)"
  let ?r1 = "getRect (player (playerStep idleInput meleeRun))"
  from tick_returns [of meleeRun idleInput]
  obtain s' where t: "tick idleInput meleeRun = Some s'"
    by (auto simp add: meleeRun_fields meleeRun_quota TOTAL_WAVES_def)
  have g: "gameState meleeRun = PLAYING" by (rule meleeRun_fields)
  have h: "health tankZombie = 100" "ztype tankZombie = TANK"
    by (simp_all add: tankZombie_def new_Zombie_eval)
  have idle: "\<not> isMovingLeft idleInput" "\<not> isMovingRight idleInput"
    by (simp_all add: idleInput_def)
  have s1: "attacking ?s1" "player ?s1 = player standingRun" "zombies ?s1 = [tankZombie]"
    by (simp_all add: spawnStep_def playerStep_def Let_def idle meleeRun_fields meleeRun_quota
        standing_update0)
  have hit: "SDL_HasIntersection (attackRect (player ?s1))
      (getRect (Zombie_update platforms (player ?s1) tankZombie))"
    unfolding s1 tankZombie_rect
    by (simp add: SDL_HasIntersection_def attackRect_def standingRun_def new_PhysicsEntity_def
        MELEE_RANGE_def c_div_def)
  from C7_melee_attack [of "6 / 5" meleeRun OTHER_EVENT idleInput ?r1 0 "[]" s'] g t
  have a: "zombies s' = zombies (zombiePass idleInput ?r1 ?s1)" and b: "\<not> attacking s'"
    by blast+
  from C7_melee_attack [of "6 / 5" ?s1 OTHER_EVENT idleInput ?r1 0 "[]" s']
  have "map health (zombies (zombiePass idleInput ?r1 ?s1)) =
     map (\<lambda>z. if attacking ?s1 \<and>
                  SDL_HasIntersection (attackRect (player ?s1))
                    (getRect (Zombie_update platforms (player ?s1) z))
               then health z - 25 else health z)
       (filter (\<lambda>z. \<not> (attacking ?s1 \<and>
                   SDL_HasIntersection (attackRect (player ?s1))
                     (getRect (Zombie_update platforms (player ?s1) z)) \<and>
                   health z - 25 \<le> 0)) (zombies ?s1))"
    by blast
  also have "\<dots> = [75]"
    using hit h s1(1) by (simp add: s1(3))
  finally have c: "map health (zombies s') = [75]" using a by simp
  have "6 / 5 - lastAttackTime s' < ATTACK_COOLDOWN"
    by (simp add: tick_lastAttackTime [OF t] meleeRun_fields ATTACK_COOLDOWN_def)
  with C7_melee_attack [of "6 / 5" s' OTHER_EVENT idleInput ?r1 0 "[]" s']
  have d: "handleEvent (KEYDOWN_f (6 / 5)) s' = s'" by blast
  from h meleeRun_fields(4) t b c d show ?thesis by simp
qed

subsection \<open>C6: contact damage\<close>

text \<open>
  C6, as stated, fails in its scenario: the cooldown test is \<^verbatim>\<open>currentTime - lastDamageTime >= 1.0\<close>,
  so in continuous contact over ticks at clock reads 2, 3, 4 and 5 (3.0 time units from
  the first to the last) a Fast zombie applies its damage four times: the player is at
  85 after the tick at 4 and at 80 after the tick at 5.
\<close>

theorem C6_four_applications_counterexample:
  "health (player contactRun) = 100 \<and> map damage (zombies contactRun) = [5] \<and>
   inContact 100 0 contactRun \<and>
   (case runTicks [tickAt 2, tickAt 3, tickAt 4] contactRun of None \<Rightarrow> False
    | Some s' \<Rightarrow> health (player s') = 85 \<and> inContact 85 4 s') \<and>
   (case runTicks [tickAt 2, tickAt 3, tickAt 4, tickAt 5] contactRun of None \<Rightarrow> False
    | Some s' \<Rightarrow> health (player s') = 80 \<and> inContact 80 5 s')"
proof -
  from tick_hit [OF contactRun_inContact tickAt_fields(1) [of 2]]
  obtain s1 where s1: "tick (tickAt 2) contactRun = Some s1" "inContact 95 2 s1"
    by (auto simp add: tickAt_fields)
  from tick_hit [OF s1(2) tickAt_fields(1) [of 3]]
  obtain s2 where s2: "tick (tickAt 3) s1 = Some s2" "inContact 90 3 s2"
    by (auto simp add: tickAt_fields)
  from tick_hit [OF s2(2) tickAt_fields(1) [of 4]]
  obtain s3 where s3: "tick (tickAt 4) s2 = Some s3" "inContact 85 4 s3"
    by (auto simp add: tickAt_fields)
  from tick_hit [OF s3(2) tickAt_fields(1) [of 5]]
  obtain s4 where s4: "tick (tickAt 5) s3 = Some s4" "inContact 80 5 s4"
    by (auto simp add: tickAt_fields)
  have h3: "health (player s3) = 85" using s3(2) by (simp add: inContact_def)
  have h4: "health (player s4) = 80" using s4(2) by (simp add: inContact_def)
  have c: "health (player contactRun) = 100" "map damage (zombies contactRun) = [5]"
    by (simp_all add: contactRun_def standingRun_def new_PhysicsEntity_def fastZombie_def
        new_Zombie_eval)
  have e3: "runTicks [tickAt 2, tickAt 3, tickAt 4] contactRun = Some s3"
    by (simp only: runTicks_step [OF contactRun_inContact s1(1)] runTicks_step [OF s1(2) s2(1)]
        runTicks_step [OF s2(2) s3(1)] runTicks.simps(1))
  have e4: "runTicks [tickAt 2, tickAt 3, tickAt 4, tickAt 5] contactRun = Some s4"
    by (simp only: runTicks_step [OF contactRun_inContact s1(1)] runTicks_step [OF s1(2) s2(1)]
        runTicks_step [OF s2(2) s3(1)] runTicks_step [OF s3(2) s4(1)] runTicks.simps(1))
  show ?thesis
    unfolding e3 e4 using s3(2) s4(2) h3 h4 c contactRun_inContact by simp
qed

text \<open>
  C6, amended. In the loop body of a tick the player's health drops by the zombie's
  damage, clamped at 0, exactly when the zombie's box intersects the player's and at
  least 1.0 has passed since the zombie's last damage time; exactly then the zombie's
  last damage time becomes the clock read of the tick; and the health drops once: the
  second of the two blocks changes nothing after the first. Over the pass the player's
  health is that step folded over the zombies in order, the zombies that stay carry
  these last damage times, and the run after the tick has the zombies of the pass (and
  its player, when no pickup is in play and no attack is armed). A Fast zombie has
  damage 5. In the contact scenario, over any still ticks whose clock reads all lie in
  a window \<open>[t0, t0 + 3)\<close> the run returns with the player between 85 and 100; and from
  a first tick on which the zombie may hit, with the later ticks in clock order, all
  less than 3.0 after the first, one of them at least 1.0 after the first and one at
  least 1.0 after that, the run returns with the player at exactly 85.
\<close>

theorem C6_contact_damage:
  "health (player (snd (zombieBody inp r i z s))) =
     (if SDL_HasIntersection r (getRect (Zombie_update platforms (player s) z)) \<and>
         1 \<le> currentTime inp - lastDamageTime z
      then max 0 (health (player s) - damage z) else health (player s)) \<and>
   lastDamageTime (fst (fst (zombieBody inp r i z s))) =
     (if SDL_HasIntersection r (getRect (Zombie_update platforms (player s) z)) \<and>
         1 \<le> currentTime inp - lastDamageTime z
      then currentTime inp else lastDamageTime z) \<and>
   contactDamage now pr zr (contactDamage now pr zr zp) = contactDamage now pr zr zp \<and>
   player (zombiePass inp r s) =
     (player s)\<lparr>health :=
        foldl (\<lambda>hp z. if SDL_HasIntersection r (getRect (Zombie_update platforms (player s) z)) \<and>
                          1 \<le> currentTime inp - lastDamageTime z
                       then max 0 (hp - damage z) else hp) (health (player s)) (zombies s)\<rparr> \<and>
   map lastDamageTime (zombies (zombiePass inp r s)) =
     map (\<lambda>z. if SDL_HasIntersection r (getRect (Zombie_update platforms (player s) z)) \<and>
                  1 \<le> currentTime inp - lastDamageTime z
               then currentTime inp else lastDamageTime z)
       (filter (\<lambda>z. \<not> (attacking s \<and>
                   SDL_HasIntersection (attackRect (player s))
                     (getRect (Zombie_update platforms (player s) z)) \<and>
                   health z - MELEE_DAMAGE \<le> 0)) (zombies s)) \<and>
   (gameState s = PLAYING \<and> tick inp s = Some s' \<longrightarrow>
      zombies s' =
        zombies (zombiePass inp (getRect (player (playerStep inp s)))
                   (spawnStep inp (playerStep inp s))) \<and>
      (foods s = [] \<and> \<not> attacking s \<longrightarrow>
         player s' =
           player (zombiePass inp (getRect (player (playerStep inp s)))
                     (spawnStep inp (playerStep inp s))))) \<and>
   damage (new_Zombie x y w0 h0 ATTACK) = 5 \<and>
   (inContact 100 L c \<and>
    (\<forall>a\<in>set inps. still a \<and> t0 \<le> currentTime a \<and> currentTime a < t0 + 3) \<longrightarrow>
      (\<exists>c'. runTicks inps c = Some c' \<and> 85 \<le> health (player c') \<and>
         health (player c') \<le> 100)) \<and>
   (inContact 100 L c \<and> still inp0 \<and> 1 \<le> currentTime inp0 - L \<and>
    (\<forall>a\<in>set inps. still a \<and> currentTime a < currentTime inp0 + 3) \<and>
    sorted (map currentTime (inp0 # inps)) \<and> u \<in> set inps \<and> v \<in> set inps \<and>
    currentTime inp0 + 1 \<le> currentTime u \<and> currentTime u + 1 \<le> currentTime v \<longrightarrow>
      (\<exists>c'. runTicks (inp0 # inps) c = Some c' \<and> health (player c') = 85))"
proof -
  have a: "health (player (snd (zombieBody inp r i z s))) =
     (if SDL_HasIntersection r (getRect (Zombie_update platforms (player s) z)) \<and>
         1 \<le> currentTime inp - lastDamageTime z
      then max 0 (health (player s) - damage z) else health (player s))"
    by (simp add: zombieBody_player contactDamage_eq)
  note b = zombieBody_timer [of inp r i z s]
  have c: "contactDamage now pr zr (contactDamage now pr zr zp) = contactDamage now pr zr zp"
    by (cases zp) (simp only: contactDamage_twice)
  note d = zombiePass_player [of inp r s]
  note e = zombiePass_timers [of inp r s]
  have f: "zombies s' =
        zombies (zombiePass inp (getRect (player (playerStep inp s)))
                   (spawnStep inp (playerStep inp s))) \<and>
      (foods s = [] \<and> \<not> attacking s \<longrightarrow>
         player s' =
           player (zombiePass inp (getRect (player (playerStep inp s)))
                     (spawnStep inp (playerStep inp s))))"
    if "gameState s = PLAYING \<and> tick inp s = Some s'"
  proof -
    from that have g: "gameState s = PLAYING" and t: "tick inp s = Some s'" by simp_all
    let ?r1 = "getRect (player (playerStep inp s))"
    let ?s1 = "spawnStep inp (playerStep inp s)"
    have z: "zombies s' = zombies (zombiePass inp ?r1 ?s1)"
      using tick_parts(1) [OF g t] by (simp add: simulate_phases)
    have p: "player s' = player (zombiePass inp ?r1 ?s1)" if "foods s = [] \<and> \<not> attacking s"
    proof -
      from that have "\<not> attacking ?s1" "foods ?s1 = []" by simp_all
      then have "foods (zombiePass inp ?r1 ?s1) = []" by (simp add: zombiePass_foods)
      from foodPass_no_food [OF this] tick_parts(3) [OF g t] show ?thesis
        by (simp add: simulate_phases)
    qed
    from z p show ?thesis by blast
  qed
  have g: "damage (new_Zombie x y w0 h0 ATTACK) = 5"
    by (simp add: new_Zombie_eval)
  have h: "\<exists>c'. runTicks inps c = Some c' \<and> 85 \<le> health (player c') \<and>
         health (player c') \<le> 100"
    if "inContact 100 L c \<and>
      (\<forall>a\<in>set inps. still a \<and> t0 \<le> currentTime a \<and> currentTime a < t0 + 3)"
  proof -
    from that have c: "inContact 100 L c"
      and w: "\<forall>a\<in>set inps. still a \<and> t0 \<le> currentTime a \<and> currentTime a < t0 + 3"
      by simp_all
    have b: "t0 + 3 \<le> t0 + 1 + real (2 :: nat)" by simp
    from run_window [OF c w b]
    obtain c' hp' L' where r: "runTicks inps c = Some c'" "inContact hp' L' c'"
      "100 - 5 * (int 2 + 1) \<le> hp'" "hp' \<le> 100" by auto
    from r(2) have "health (player c') = hp'" by (simp add: inContact_def)
    with r show ?thesis by simp
  qed
  have k: "\<exists>c'. runTicks (inp0 # inps) c = Some c' \<and> health (player c') = 85"
    if "inContact 100 L c \<and> still inp0 \<and> 1 \<le> currentTime inp0 - L \<and>
    (\<forall>a\<in>set inps. still a \<and> currentTime a < currentTime inp0 + 3) \<and>
    sorted (map currentTime (inp0 # inps)) \<and> u \<in> set inps \<and> v \<in> set inps \<and>
    currentTime inp0 + 1 \<le> currentTime u \<and> currentTime u + 1 \<le> currentTime v"
  proof -
    from that have "\<exists>c' L'. runTicks (inp0 # inps) c = Some c' \<and> inContact 85 L' c'"
      by (intro run_three_hits [where u = u and v = v]) blast+
    then obtain c' L' where r: "runTicks (inp0 # inps) c = Some c'" "inContact 85 L' c'"
      by blast
    from r(2) have "health (player c') = 85" by (simp add: inContact_def)
    with r(1) show ?thesis by blast
  qed
  from a b c d e f g h k show ?thesis by blast
qed

theorem C6_contact_damage_witness:
  "inContact 100 0 contactRun \<and>
   (case runTicks [tickAt 2, tickAt (5 / 2), tickAt 3, tickAt (7 / 2), tickAt 4, tickAt (9 / 2)]
           contactRun of
      None \<Rightarrow> False | Some s' \<Rightarrow> health (player s') = 85)"
proof -
  let ?rest = "[tickAt (5 / 2), tickAt 3, tickAt (7 / 2), tickAt 4, tickAt (9 / 2)]"
  have pre: "inContact 100 0 contactRun \<and> still (tickAt 2) \<and> 1 \<le> currentTime (tickAt 2) - 0 \<and>
    (\<forall>a\<in>set ?rest. still a \<and> currentTime a < currentTime (tickAt 2) + 3) \<and>
    sorted (map currentTime (tickAt 2 # ?rest)) \<and> tickAt 3 \<in> set ?rest \<and> tickAt 4 \<in> set ?rest \<and>
    currentTime (tickAt 2) + 1 \<le> currentTime (tickAt 3) \<and>
    currentTime (tickAt 3) + 1 \<le> currentTime (tickAt 4)"
    using contactRun_inContact by (simp add: tickAt_fields)
  from C6_contact_damage [of idleInput "getRect (player standingRun)" 0 fastZombie standingRun
      2 "getRect (player standingRun)" "getRect fastZombie" "(fastZombie, player standingRun)"
      standingRun 100 512 32 32 0 contactRun ?rest 2 "tickAt 2" "tickAt 3" "tickAt 4"] pre
  obtain c' where "runTicks (tickAt 2 # ?rest) contactRun = Some c'" "health (player c') = 85"
    by blast
  with contactRun_inContact show ?thesis by (simp del: runTicks.simps)
qed

subsection \<open>C9: pickups\<close>



subsection \<open>The codec: reading back what was written\<close>

lemma length_le_bytes [simp]: "length (le_bytes n v) = n"
  by (induction n arbitrary: v) simp_all

lemma le_value_le_bytes: "le_value (le_bytes n v) = v mod 256 ^ n"
proof (induction n arbitrary: v)
  case 0
  show ?case by simp
next
  case (Suc n)
  have "unat (of_nat (v mod 256) :: byte) = v mod 256"
    by (simp add: unat_of_nat)
  then show ?case
    by (simp add: Suc.IH mod_mult2_eq)
qed

lemma bytes_float_roundtrip [simp]: "bytes_float (float_bytes x) = x"
proof -
  have "unat x < 2 ^ 32" using unsigned_less [of x] by simp
  then show ?thesis
    by (simp add: bytes_float_def float_bytes_def le_value_le_bytes)
qed

lemma bytes_double_roundtrip [simp]: "bytes_double (double_bytes x) = x"
proof -
  have "unat x < 2 ^ 64" using unsigned_less [of x] by simp
  then show ?thesis
    by (simp add: bytes_double_def double_bytes_def le_value_le_bytes)
qed

lemma bytes_int_roundtrip: "int32 i \<Longrightarrow> bytes_int (int_bytes i) = i"
proof -
  assume r: "int32 i"
  have "unat (word_of_int i :: 32 word) < 2 ^ 32"
    using unsigned_less [of "word_of_int i :: 32 word"] by simp
  then have "bytes_int (int_bytes i) = sint (word_of_int i :: 32 word)"
    by (simp add: bytes_int_def int_bytes_def le_value_le_bytes)
  also have "\<dots> = i"
    using r by (simp add: int32_def sint_sbintrunc' signed_take_bit_int_eq_self)
  finally show ?thesis .
qed

lemma bytes_size_t_roundtrip: "size_t n \<Longrightarrow> bytes_size_t (size_t_bytes n) = n"
proof -
  assume "size_t n"
  then have r: "n < 2 ^ 64" by (simp add: size_t_def)
  have "unat (of_nat n :: 64 word) < 2 ^ 64"
    using unsigned_less [of "of_nat n :: 64 word"] by simp
  then have "bytes_size_t (size_t_bytes n) = unat (of_nat n :: 64 word)"
    by (simp add: bytes_size_t_def size_t_bytes_def le_value_le_bytes)
  also have "\<dots> = n"
    using r by (simp add: unat_of_nat)
  finally show ?thesis .
qed

lemma bytes_bool_roundtrip [simp]: "bytes_bool (bool_bytes b) = b"
  by (simp add: bytes_bool_def bool_bytes_def)

lemma bytes_Vector2D_roundtrip [simp]: "bytes_Vector2D (Vector2D_bytes v) = v"
  by (simp add: bytes_Vector2D_def Vector2D_bytes_def float_bytes_def)
    (simp add: float_bytes_def [symmetric])

lemma length_bytes [simp]:
  "length (float_bytes x) = 4" "length (double_bytes d) = 8" "length (int_bytes i) = 4"
  "length (size_t_bytes n) = 8" "length (bool_bytes b) = 1" "length (Vector2D_bytes v) = 8"
  by (simp_all add: float_bytes_def double_bytes_def int_bytes_def size_t_bytes_def
      bool_bytes_def Vector2D_bytes_def)

lemma istream_read_full:
  "length bs = n \<Longrightarrow> length old = n \<Longrightarrow>
   istream_read n old \<lparr>content = bs @ rest, good = True\<rparr> = (bs, \<lparr>content = rest, good = True\<rparr>)"
  by (simp add: istream_read_def Let_def min_def)

lemma istream_read_failed:
  "istream_read n old \<lparr>content = bs, good = False\<rparr> = (old, \<lparr>content = bs, good = False\<rparr>)"
  by (simp add: istream_read_def)

lemma istream_read_empty:
  "0 < n \<Longrightarrow> istream_read n old \<lparr>content = [], good = True\<rparr> = (old, \<lparr>content = [], good = False\<rparr>)"
  by (simp add: istream_read_def Let_def)

lemma read_full:
  "read_float old \<lparr>content = float_bytes x @ rest, good = True\<rparr> = (x, \<lparr>content = rest, good = True\<rparr>)"
  "read_double oldd \<lparr>content = double_bytes d @ rest, good = True\<rparr> = (d, \<lparr>content = rest, good = True\<rparr>)"
  "read_bool oldb \<lparr>content = bool_bytes b @ rest, good = True\<rparr> = (b, \<lparr>content = rest, good = True\<rparr>)"
  "read_Vector2D oldv \<lparr>content = Vector2D_bytes v @ rest, good = True\<rparr> = (v, \<lparr>content = rest, good = True\<rparr>)"
  by (simp_all add: read_float_def read_double_def read_bool_def read_Vector2D_def istream_read_full)

lemma read_int_full:
  "int32 i \<Longrightarrow>
   read_int old \<lparr>content = int_bytes i @ rest, good = True\<rparr> = (i, \<lparr>content = rest, good = True\<rparr>)"
  by (simp add: read_int_def istream_read_full bytes_int_roundtrip)

lemma read_size_t_full:
  "size_t n \<Longrightarrow>
   read_size_t old \<lparr>content = size_t_bytes n @ rest, good = True\<rparr> = (n, \<lparr>content = rest, good = True\<rparr>)"
  by (simp add: read_size_t_def istream_read_full bytes_size_t_roundtrip)

lemma ZombieType_roundtrip [simp]: "ZombieType_of_int (int_of_ZombieType t) = t"
  by (cases t) (simp_all add: ZombieType_of_int_def int_of_ZombieType_def)

lemma int32_ZombieType [simp]: "int32 (int_of_ZombieType t)"
  by (cases t) (simp_all add: int32_def int_of_ZombieType_def)

lemma read_zombies_full:
  "read_zombies env (length zs) i \<lparr>content = concat (map zombie_bytes zs) @ rest, good = True\<rparr> =
     (zs, \<lparr>content = rest, good = True\<rparr>)"
proof (induction zs arbitrary: i)
  case Nil
  show ?case by simp
next
  case (Cons z zs)
  obtain x y t where z: "z = (x, y, t)" by (cases z)
  have zb: "zombie_bytes (x, y, t) = float_bytes x @ float_bytes y @ int_bytes (int_of_ZombieType t)"
    by (simp add: zombie_bytes_def)
  show ?case
    by (simp add: z zb read_full read_int_full Cons.IH)
qed

lemma load_serialize:
  assumes "storable state" and "length (GameState.zombies state) \<le> allocLimit env"
  shows "loadGameState env (Some (serialize state)) = Inr (state\<lparr>isValid := True\<rparr>)"
proof -
  from assms(1) have i: "int32 (playerHealth state)" "int32 (GameState.score state)"
    "int32 (GameState.wave state)" "int32 (GameState.zombiesToSpawn state)"
    "int32 (GameState.waveZombiesRemaining state)" "int32 (weatherType state)"
    and n: "size_t (length (GameState.zombies state))"
    by (simp_all add: storable_def)
  have l: "int_bytes a = int_bytes a @ []" for a by simp
  have al: "\<not> allocLimit env < length (GameState.zombies state)"
    using assms(2) by simp
  show ?thesis
    unfolding loadGameState_def serialize_def Let_def
    apply (simp add: read_full read_int_full [OF i(1)] read_int_full [OF i(2)]
        read_size_t_full [OF n] read_zombies_full al
        read_int_full [OF i(3)] read_int_full [OF i(4)] read_int_full [OF i(5)])
    apply (subst l [of "weatherType state"])
    apply (simp only: read_int_full [OF i(6)])
    apply simp
    done
qed

subsection \<open>C1: save and load\<close>

text \<open>
  C1: for every snapshot of the program, saved through a stream that opened and loaded
  again from that file (with memory for its list of zombies), the loaded state is the
  saved one with the validity flag set: the same player position, velocity and health,
  score, elapsed time, wave, number to spawn, number remaining, weather, and the same
  zombies in the same order with the same positions and types. Pickups are in no
  snapshot: the snapshot of a run does not depend on its pickups, and restoring a
  snapshot leaves the pickups of the run as they are.
\<close>

theorem C1_save_load_roundtrip:
  assumes "storable state" and "length (GameState.zombies state) \<le> allocLimit env"
  shows "loadGameState env (saveGameState state True file) = Inr (state\<lparr>isValid := True\<rparr>) \<and>
     takeSnapshot (s\<lparr>foods := fs\<rparr>) clock = takeSnapshot s clock \<and>
     foods (restoreRun g clock1 clock2 s) = foods s"
proof -
  have a: "loadGameState env (saveGameState state True file) = Inr (state\<lparr>isValid := True\<rparr>)"
    unfolding saveGameState_def using load_serialize [OF assms] by simp
  have b: "takeSnapshot (s\<lparr>foods := fs\<rparr>) clock = takeSnapshot s clock"
    by (simp add: takeSnapshot_def)
  have c: "foods (restoreRun g clock1 clock2 s) = foods s"
    by (simp add: restoreRun_def)
  from a b c show ?thesis by blast
qed

theorem C1_save_load_roundtrip_witness:
  "storable savedState \<and> length (GameState.zombies savedState) \<le> allocLimit junkEnv \<and>
   loadGameState junkEnv (saveGameState savedState True None) = Inr savedState"
proof -
  have st: "storable savedState"
    by (simp add: storable_def savedState_def int32_def size_t_def)
  have al: "length (GameState.zombies savedState) \<le> allocLimit junkEnv"
    by (simp add: savedState_def junkEnv_def)
  have v: "savedState\<lparr>isValid := True\<rparr> = savedState"
    by (simp add: savedState_def)
  from C1_save_load_roundtrip [OF st al, of None]
  have "loadGameState junkEnv (saveGameState savedState True None) =
      Inr (savedState\<lparr>isValid := True\<rparr>)" by blast
  with st al v show ?thesis by simp
qed

subsection \<open>The codec: reading a file that ends early\<close>

lemma read_failed:
  "read_Vector2D v \<lparr>content = bs, good = False\<rparr> = (v, \<lparr>content = bs, good = False\<rparr>)"
  "read_float x \<lparr>content = bs, good = False\<rparr> = (x, \<lparr>content = bs, good = False\<rparr>)"
  "read_double d \<lparr>content = bs, good = False\<rparr> = (d, \<lparr>content = bs, good = False\<rparr>)"
  "read_bool b \<lparr>content = bs, good = False\<rparr> = (b, \<lparr>content = bs, good = False\<rparr>)"
  "int32 i \<Longrightarrow> read_int i \<lparr>content = bs, good = False\<rparr> = (i, \<lparr>content = bs, good = False\<rparr>)"
  "size_t n \<Longrightarrow> read_size_t n \<lparr>content = bs, good = False\<rparr> = (n, \<lparr>content = bs, good = False\<rparr>)"
  by (simp_all add: read_Vector2D_def read_float_def read_double_def read_bool_def read_int_def
      read_size_t_def istream_read_failed bytes_int_roundtrip bytes_size_t_roundtrip)

lemma read_Vector2D_empty:
  "read_Vector2D v \<lparr>content = [], good = True\<rparr> = (v, \<lparr>content = [], good = False\<rparr>)"
  by (simp add: read_Vector2D_def istream_read_empty)

lemma load_empty_file:
  assumes "int32 (uHealth env)" and "int32 (uScore env)" and "size_t (uZombieCount env)"
  shows "loadGameState env (Some []) =
     (if uZombieCount env > allocLimit env then Inl AllocationFailure
      else Inr ((new_GameState (uHealth env) (uScore env) (uStartTime env))
                 \<lparr>isValid := True,
                   GameState.zombies := fst (read_zombies env (uZombieCount env) 0 \<lparr>content = [], good = False\<rparr>)\<rparr>))"
proof -
  have z: "snd (read_zombies env n i \<lparr>content = [], good = False\<rparr>) = \<lparr>content = [], good = False\<rparr>"
    for n i
    by (induction n arbitrary: i)
      (simp_all add: read_float_def read_int_def istream_read_failed split_beta)
  have i: "int32 1" "int32 15" "int32 0" by (simp_all add: int32_def)
  obtain zs where r: "read_zombies env (uZombieCount env) 0 \<lparr>content = [], good = False\<rparr> =
      (zs, \<lparr>content = [], good = False\<rparr>)"
    using z [of "uZombieCount env" 0]
    by (cases "read_zombies env (uZombieCount env) 0 \<lparr>content = [], good = False\<rparr>") simp
  show ?thesis
    unfolding loadGameState_def Let_def
    by (simp add: new_GameState_def read_Vector2D_empty read_failed assms i r)
qed

subsection \<open>C2: validity of a loaded state\<close>

text \<open>
  C2, as stated, fails: \<^verbatim>\<open>loadGameState\<close> checks no read. An empty save file opens,
  every read fails, and the state returned is marked valid although its health and
  score are whatever the memory held (-7 and 123456 here); and when that memory makes
  the zombie count too large to allocate, \<^verbatim>\<open>resize\<close> throws and the program ends.
\<close>

theorem C2_truncated_file_counterexample:
  "loadGameState junkEnv (Some []) =
     Inr \<lparr>playerPos = (0, 0), playerVel = (0, 0), playerHealth = - 7, score = 123456,
          startTime = 0, isValid = True, zombies = [], wave = 1, zombiesToSpawn = 15,
          waveZombiesRemaining = 0, weatherType = 0\<rparr> \<and>
   loadGameState (junkEnv\<lparr>uZombieCount := 2 ^ 40\<rparr>) (Some []) = Inl AllocationFailure"
proof -
  have a: "int32 (uHealth junkEnv)" "int32 (uScore junkEnv)" "size_t (uZombieCount junkEnv)"
    by (simp_all add: junkEnv_def int32_def size_t_def)
  have b: "int32 (uHealth (junkEnv\<lparr>uZombieCount := 2 ^ 40\<rparr>))"
    "int32 (uScore (junkEnv\<lparr>uZombieCount := 2 ^ 40\<rparr>))"
    "size_t (uZombieCount (junkEnv\<lparr>uZombieCount := 2 ^ 40\<rparr>))"
    by (simp_all add: junkEnv_def int32_def size_t_def)
  show ?thesis
    unfolding load_empty_file [OF a] load_empty_file [OF b]
    by (simp add: junkEnv_def new_GameState_def)
qed

lemma load_opened_valid:
  "loadGameState env (Some bytes) = Inr st \<Longrightarrow> isValid st"
  unfolding loadGameState_def Let_def
  by (auto split: prod.splits if_splits)

lemma restoreRun_invalid:
  "\<not> isValid st \<Longrightarrow> restoreRun (GameState_values fval dval st) clock1 clock2 s = s"
  by (simp add: restoreRun_def GameState_values_def)

text \<open>
  C2, amended: \<^verbatim>\<open>loadGameState\<close> marks the state valid exactly when the file opened
  (whenever it returns at all). When the file does not open it returns the
  default-constructed state: flag false, position and velocity zero, no zombies, wave
  1, 15 to spawn, 0 remaining, weather 0 (health, score and time uninitialised). A
  caller that gets an invalid state keeps the values of a fresh run.
\<close>

theorem C2_load_validity:
  "loadGameState env None = Inr (new_GameState (uHealth env) (uScore env) (uStartTime env)) \<and>
   (case loadGameState env file of Inl err \<Rightarrow> True | Inr st \<Rightarrow> isValid st = (file \<noteq> None)) \<and>
   (loadGameState env file = Inr st \<and> \<not> isValid st \<longrightarrow>
      file = None \<and>
      playerPos st = (0, 0) \<and> playerVel st = (0, 0) \<and> GameState.zombies st = [] \<and>
      GameState.wave st = 1 \<and> GameState.zombiesToSpawn st = 15 \<and>
      GameState.waveZombiesRemaining st = 0 \<and> weatherType st = 0 \<and>
      startRun True env file fval dval clock clock1 clock2 ws hs = Inr (initRun clock ws hs))"
proof -
  have a: "loadGameState env None = Inr (new_GameState (uHealth env) (uScore env) (uStartTime env))"
    by (simp add: loadGameState_def)
  have nv: "\<not> isValid (new_GameState x y z :: (32 word, 64 word) GameState)" for x y z
    by (simp add: new_GameState_def)
  have b: "case loadGameState env file of Inl err \<Rightarrow> True | Inr st \<Rightarrow> isValid st = (file \<noteq> None)"
  proof (cases "file")
    case None
    then show ?thesis by (simp add: a nv)
  next
    case (Some bytes)
    then show ?thesis
      using load_opened_valid [of env bytes] by (auto split: sum.split)
  qed
  have c: "file = None \<and>
      playerPos st = (0, 0) \<and> playerVel st = (0, 0) \<and> GameState.zombies st = [] \<and>
      GameState.wave st = 1 \<and> GameState.zombiesToSpawn st = 15 \<and>
      GameState.waveZombiesRemaining st = 0 \<and> weatherType st = 0 \<and>
      startRun True env file fval dval clock clock1 clock2 ws hs = Inr (initRun clock ws hs)"
    if l: "loadGameState env file = Inr st" and i: "\<not> isValid st"
  proof -
    from b l i have f: "file = None" by simp
    with l a have st: "st = new_GameState (uHealth env) (uScore env) (uStartTime env)" by simp
    have "startRun True env file fval dval clock clock1 clock2 ws hs = Inr (initRun clock ws hs)"
      by (simp add: startRun_def l restoreRun_invalid [OF i])
    with f show ?thesis by (simp add: st new_GameState_def)
  qed
  from a b c show ?thesis by blast
qed

theorem C2_load_validity_witness:
  "loadGameState junkEnv None = Inr (new_GameState (- 7) 123456 0) \<and>
   startRun True junkEnv None (\<lambda>x. 0) (\<lambda>x. 0) 1 1 1 \<lparr>weatherStart = 1, currentWeather = DAY\<rparr> 0 =
     Inr freshRun"
proof -
  note t = C2_load_validity [of junkEnv None "new_GameState (- 7) 123456 0"
      "\<lambda>x. 0" "\<lambda>x. 0" 1 1 1 "\<lparr>weatherStart = 1, currentWeather = DAY\<rparr>" 0]
  from t have a: "loadGameState junkEnv None = Inr (new_GameState (- 7) 123456 0)"
    by (simp add: junkEnv_def)
  have "\<not> isValid (new_GameState (- 7) 123456 0 :: (32 word, 64 word) GameState)"
    by (simp add: new_GameState_def)
  with a t have "startRun True junkEnv None (\<lambda>x. 0) (\<lambda>x. 0) 1 1 1
      \<lparr>weatherStart = 1, currentWeather = DAY\<rparr> 0 =
      Inr (initRun 1 \<lparr>weatherStart = 1, currentWeather = DAY\<rparr> 0)"
    by blast
  with a show ?thesis by (simp add: freshRun_def)
qed

end
